theory Spec2Isabelle
  imports Complex_Main "HOL-Library.AList"
begin

section \<open>JavaScript values as the code handles them\<close>

text \<open>
  The payloads that the agent route and its client pass around are parsed JSON: the
  value \<open>undefined\<close> appears as the result of reading a property that is not there.
  Numbers are IEEE doubles; only their truthiness and their order against a constant are
  used by the code, so a number is \<open>NaN\<close>, an infinity, negative zero or a finite value
  (a rational; \<open>Fin 0\<close> is positive zero). An object is the list of its own entries in
  insertion order; a property read takes the first entry of that name.
\<close>

datatype jsnum = NaN | PosInf | NegInf | NegZero | Fin rat

datatype jsval =
    JUndefined
  | JNull
  | JBool bool
  | JNum jsnum
  | JStr string
  | JArr "jsval list"
  | JObj "(string \<times> jsval) list"

datatype jstype = TUndefined | TObject | TBoolean | TNumber | TString

text \<open>The operator \<open>typeof\<close>: \<open>null\<close> and arrays are of type \<open>object\<close>.\<close>

fun typeof :: "jsval \<Rightarrow> jstype" where
  "typeof JUndefined = TUndefined"
| "typeof JNull = TObject"
| "typeof (JBool b) = TBoolean"
| "typeof (JNum n) = TNumber"
| "typeof (JStr s) = TString"
| "typeof (JArr xs) = TObject"
| "typeof (JObj kvs) = TObject"

text \<open>
  ToBoolean: \<open>undefined\<close>, \<open>null\<close>, \<open>false\<close>, \<open>0\<close>, \<open>-0\<close>, \<open>NaN\<close> and the empty
  string are falsy; everything else, every object and array included, is truthy.
\<close>

fun num_truthy :: "jsnum \<Rightarrow> bool" where
  "num_truthy NaN = False"
| "num_truthy NegZero = False"
| "num_truthy (Fin q) = (q \<noteq> 0)"
| "num_truthy PosInf = True"
| "num_truthy NegInf = True"

fun js_truthy :: "jsval \<Rightarrow> bool" where
  "js_truthy JUndefined = False"
| "js_truthy JNull = False"
| "js_truthy (JBool b) = b"
| "js_truthy (JNum n) = num_truthy n"
| "js_truthy (JStr s) = (s \<noteq> [])"
| "js_truthy (JArr xs) = True"
| "js_truthy (JObj kvs) = True"

text \<open>Decimal numerals, for array indices and for numbers inside template strings.\<close>

definition digit_char :: "nat \<Rightarrow> char" where
  "digit_char d = ''0123456789'' ! d"

function show_nat :: "nat \<Rightarrow> string" where
  "show_nat n = (if n < 10 then [digit_char n] else show_nat (n div 10) @ [digit_char (n mod 10)])"
  by pat_completeness auto
termination
  by (relation "measure id") auto

definition is_digit :: "char \<Rightarrow> bool" where
  "is_digit c = ((48::nat) \<le> of_char c \<and> (of_char c :: nat) \<le> 57)"

text \<open>
  A property name is an array index when it is the canonical decimal numeral of a
  natural number: digits only, and no leading zero unless it is \<open>0\<close> itself.
\<close>

definition array_index :: "string \<Rightarrow> nat option" where
  "array_index k =
     (if k \<noteq> [] \<and> list_all is_digit k \<and> (k = ''0'' \<or> hd k \<noteq> CHR ''0'')
      then Some (foldl (\<lambda>acc c. 10 * acc + ((of_char c :: nat) - 48)) 0 k)
      else None)"

text \<open>
  Reading a property of a value that is neither \<open>null\<close> nor \<open>undefined\<close>. The code reads
  fixed names only (\<open>status\<close>, \<open>result\<close>, \<open>message\<close>, \<open>length\<close>, ...), none of them
  inherited from a prototype except \<open>length\<close> of strings and arrays.
\<close>

fun js_prop :: "jsval \<Rightarrow> string \<Rightarrow> jsval" where
  "js_prop (JObj kvs) k = (case map_of kvs k of Some v \<Rightarrow> v | None \<Rightarrow> JUndefined)"
| "js_prop (JArr xs) k =
     (if k = ''length'' then JNum (Fin (of_nat (length xs)))
      else case array_index k of
             Some i \<Rightarrow> (if i < length xs then xs ! i else JUndefined)
           | None \<Rightarrow> JUndefined)"
| "js_prop (JStr s) k =
     (if k = ''length'' then JNum (Fin (of_nat (length s)))
      else case array_index k of
             Some i \<Rightarrow> (if i < length s then JStr [s ! i] else JUndefined)
           | None \<Rightarrow> JUndefined)"
| "js_prop v k = JUndefined"

text \<open>
  The operator \<open>in\<close> on a value of type \<open>object\<close> that is not \<open>null\<close> (on anything else
  it throws; the code applies it behind a \<open>typeof\<close> test only).
\<close>

fun js_in :: "string \<Rightarrow> jsval \<Rightarrow> bool" where
  "js_in k (JObj kvs) = (map_of kvs k \<noteq> None)"
| "js_in k (JArr xs) =
     (k = ''length'' \<or> (case array_index k of Some i \<Rightarrow> i < length xs | None \<Rightarrow> False))"
| "js_in k v = False"

text \<open>The nullish coalescing operator \<open>a ?? b\<close> and the disjunction \<open>a || b\<close>.\<close>

definition nullish :: "jsval \<Rightarrow> bool" where
  "nullish v = (v = JNull \<or> v = JUndefined)"

definition js_coalesce :: "jsval \<Rightarrow> jsval \<Rightarrow> jsval" where
  "js_coalesce a b = (if nullish a then b else a)"

definition js_or :: "jsval \<Rightarrow> jsval \<Rightarrow> jsval" where
  "js_or a b = (if js_truthy a then a else b)"

text \<open>
  \<open>String(v)\<close>. The digits of a number are the language's (the shortest decimal that
  reads back as the same double); they are taken as the parameter \<open>numstr\<close>.
\<close>

fun join_comma :: "string list \<Rightarrow> string" where
  "join_comma [] = []"
| "join_comma [s] = s"
| "join_comma (s # t # ss) = s @ '','' @ join_comma (t # ss)"

fun js_String :: "(jsnum \<Rightarrow> string) \<Rightarrow> jsval \<Rightarrow> string" where
  "js_String numstr JUndefined = ''undefined''"
| "js_String numstr JNull = ''null''"
| "js_String numstr (JBool b) = (if b then ''true'' else ''false'')"
| "js_String numstr (JNum n) = numstr n"
| "js_String numstr (JStr s) = s"
| "js_String numstr (JArr xs) =
     join_comma (map (\<lambda>x. if nullish x then [] else js_String numstr x) xs)"
| "js_String numstr (JObj kvs) = ''[object Object]''"

section \<open>The response normalizer\<close>

datatype nstatus = Success | Error

text \<open>
  \<open>NormalizedAgentResponse\<close>. The optional fields \<open>message\<close> and \<open>metadata\<close> hold
  \<open>JUndefined\<close> when they are absent or \<open>undefined\<close>; the code copies them from the
  payload as they are, so at run time they can hold any value.
\<close>

record normalized =
  status :: nstatus
  result :: jsval
  message :: jsval
  metadata :: jsval

text \<open>
  The rest pattern \<open>const { status, message, metadata, ...rest } = parsed\<close> and
  \<open>Object.keys(rest)\<close>.
\<close>

definition rest_of :: "jsval \<Rightarrow> (string \<times> jsval) list" where
  "rest_of v =
     (case v of
        JObj kvs \<Rightarrow> filter (\<lambda>(k, x). k \<notin> set [''status'', ''message'', ''metadata'']) kvs
      | _ \<Rightarrow> [])"

definition object_keys :: "(string \<times> jsval) list \<Rightarrow> string list" where
  "object_keys kvs = remdups (map fst kvs)"

lemma size_map_of:
  "map_of kvs k = Some v \<Longrightarrow> size v < Suc (size_list (size_prod (\<lambda>_. 0) size) kvs)"
  by (induction kvs) (auto split: if_splits)

lemma array_index_response: "array_index ''response'' = None"
  by (simp add: array_index_def is_digit_def)

function normalizeResponse :: "(jsnum \<Rightarrow> string) \<Rightarrow> jsval \<Rightarrow> normalized" where
  "normalizeResponse numstr parsed =
     (if \<not> js_truthy parsed then
        \<lparr>status = Error, result = JObj [],
         message = JStr ''Empty response from agent'', metadata = JUndefined\<rparr>
      else if typeof parsed = TString then
        \<lparr>status = Success, result = JObj [(''text'', parsed)],
         message = parsed, metadata = JUndefined\<rparr>
      else if typeof parsed \<noteq> TObject then
        \<lparr>status = Success, result = JObj [(''value'', parsed)],
         message = JStr (js_String numstr parsed), metadata = JUndefined\<rparr>
      else if js_in ''status'' parsed \<and> js_in ''result'' parsed then
        \<lparr>status = (if js_prop parsed ''status'' = JStr ''error'' then Error else Success),
         result = js_or (js_prop parsed ''result'') (JObj []),
         message = js_prop parsed ''message'',
         metadata = js_prop parsed ''metadata''\<rparr>
      else if js_in ''status'' parsed then
        (let rest = rest_of parsed in
         \<lparr>status = (if js_prop parsed ''status'' = JStr ''error'' then Error else Success),
          result = (if length (object_keys rest) > 0 then JObj rest else JObj []),
          message = js_prop parsed ''message'',
          metadata = js_prop parsed ''metadata''\<rparr>)
      else if js_in ''result'' parsed then
        (let r = js_prop parsed ''result'';
             msg = js_coalesce
                     (js_coalesce (js_prop parsed ''message'')
                        (if typeof r = TString then r else JNull))
                     (if js_truthy r \<and> typeof r = TObject
                      then js_coalesce (js_coalesce (js_coalesce (js_coalesce (js_coalesce
                             (js_prop r ''text'') (js_prop r ''message'')) (js_prop r ''response''))
                             (js_prop r ''answer'')) (js_prop r ''summary'')) (js_prop r ''content'')
                      else JNull)
         in \<lparr>status = Success,
             result = (if typeof r = TString then JObj [(''text'', r)] else js_or r (JObj [])),
             message = (if typeof msg = TString then msg else JUndefined),
             metadata = js_prop parsed ''metadata''\<rparr>)
      else if js_in ''message'' parsed \<and> typeof (js_prop parsed ''message'') = TString then
        \<lparr>status = Success, result = JObj [(''text'', js_prop parsed ''message'')],
         message = js_prop parsed ''message'', metadata = JUndefined\<rparr>
      else if js_in ''response'' parsed then
        normalizeResponse numstr (js_prop parsed ''response'')
      else
        \<lparr>status = Success, result = parsed, message = JUndefined, metadata = JUndefined\<rparr>)"
  by pat_completeness auto
termination
proof (relation "measure (\<lambda>(numstr, parsed). size parsed)", goal_cases)
  case 1
  show ?case by simp
next
  case (2 numstr parsed)
  then show ?case
    by (cases parsed) (auto simp: array_index_response dest: size_map_of)
qed

text \<open>
  The object that \<open>normalizeResponse\<close> returns, with its four entries; an entry the
  literal of the code leaves out holds \<open>undefined\<close>.
\<close>

definition status_text :: "nstatus \<Rightarrow> string" where
  "status_text s = (case s of Success \<Rightarrow> ''success'' | Error \<Rightarrow> ''error'')"

definition to_object :: "normalized \<Rightarrow> jsval" where
  "to_object n =
     JObj [(''status'', JStr (status_text (status n))), (''result'', result n),
           (''message'', message n), (''metadata'', metadata n)]"

declare normalizeResponse.simps [simp del]

subsection \<open>Notions used to state the normalizer's properties\<close>

text \<open>
  A sample formatter to evaluate examples with. It is not \<open>Number.prototype.toString\<close>:
  it agrees with it on \<open>NaN\<close>, the infinities, the zeros and the integers up to
  \<open>2^53\<close> in magnitude, and elsewhere prints the exact digits of the integer part
  (where the language rounds to the shortest decimal of the double, and keeps the
  fraction). The examples apply it to 7 and to 0 only; no property depends on it.
\<close>

definition numstr_integral :: "jsnum \<Rightarrow> string" where
  "numstr_integral n =
     (case n of
        NaN \<Rightarrow> ''NaN''
      | PosInf \<Rightarrow> ''Infinity''
      | NegInf \<Rightarrow> ''-Infinity''
      | NegZero \<Rightarrow> ''0''
      | Fin q \<Rightarrow> (if q < 0 then ''-'' else []) @ show_nat (nat \<lfloor>\<bar>q\<bar>\<rfloor>))"

text \<open>
  The candidates that reach the recursive call of \<open>normalizeResponse\<close>: objects with a
  \<open>response\<close> entry and no \<open>status\<close>, no \<open>result\<close> and no string \<open>message\<close>.
  \<open>payload_of\<close> opens such envelopes until something else is found.
\<close>

definition is_envelope :: "jsval \<Rightarrow> bool" where
  "is_envelope c =
     (js_truthy c \<and> typeof c = TObject \<and> \<not> js_in ''status'' c \<and> \<not> js_in ''result'' c \<and>
      \<not> (js_in ''message'' c \<and> typeof (js_prop c ''message'') = TString) \<and>
      js_in ''response'' c)"

lemma is_envelope_size: "is_envelope c \<Longrightarrow> size (js_prop c ''response'') < size c"
  by (cases c) (auto simp: is_envelope_def array_index_response dest: size_map_of)

function payload_of :: "jsval \<Rightarrow> jsval" where
  "payload_of c = (if is_envelope c then payload_of (js_prop c ''response'') else c)"
  by pat_completeness auto
termination
  by (relation "measure size") (auto simp: is_envelope_size)

declare payload_of.simps [simp del]

text \<open>An object that carries a \<open>status\<close> entry equal to the string \<open>error\<close>.\<close>

definition explicit_error :: "jsval \<Rightarrow> bool" where
  "explicit_error c =
     (typeof c = TObject \<and> js_in ''status'' c \<and> js_prop c ''status'' = JStr ''error'')"

text \<open>
  The condition under which the specification expects the status \<open>error\<close>: the
  candidate itself is empty (read here in the widest sense, any falsy value) or is an
  object with the status \<open>error\<close>.
\<close>

definition claimed_error :: "jsval \<Rightarrow> bool" where
  "claimed_error c = (explicit_error c \<or> \<not> js_truthy c)"

text \<open>Numbers and booleans: the scalars that are neither strings nor objects.\<close>

definition is_scalar :: "jsval \<Rightarrow> bool" where
  "is_scalar v = (typeof v = TNumber \<or> typeof v = TBoolean)"

text \<open>
  A normalized response as it arrives after serialisation: entries holding
  \<open>undefined\<close> are left out.
\<close>

definition drop_undefined :: "jsval \<Rightarrow> jsval" where
  "drop_undefined v =
     (case v of JObj kvs \<Rightarrow> JObj (filter (\<lambda>(k, x). x \<noteq> JUndefined) kvs) | _ \<Rightarrow> v)"

definition is_object :: "jsval \<Rightarrow> bool" where
  "is_object v = (case v of JObj kvs \<Rightarrow> True | JArr xs \<Rightarrow> True | _ \<Rightarrow> False)"

section \<open>The client: \<open>fetchWrapper\<close> and \<open>callAIAgent\<close>\<close>

text \<open>
  A thrown value is an \<open>Error\<close> with its message, or something else. Reading a property
  of \<open>null\<close> or \<open>undefined\<close> throws a \<open>TypeError\<close>; its message is the engine's (here
  V8's wording).
\<close>

datatype exn = JsError string | JsThrown jsval

definition null_read_message :: "jsval \<Rightarrow> string \<Rightarrow> string" where
  "null_read_message v k =
     ''Cannot read properties of '' @ (if v = JNull then ''null'' else ''undefined'') @
     '' (reading '' @ [CHR 0x27] @ k @ [CHR 0x27] @ '')''"

definition js_get :: "jsval \<Rightarrow> string \<Rightarrow> exn + jsval" where
  "js_get v k = (if nullish v then Inl (JsError (null_read_message v k)) else Inr (js_prop v k))"

text \<open>
  What \<open>fetch\<close> gives back: a rejection, or a response with the fields the code reads.
  \<open>body_text\<close> and \<open>body_json\<close> are the results of \<open>response.text()\<close> and
  \<open>response.json()\<close>; each may reject (a body that is not JSON rejects with a
  \<open>SyntaxError\<close>).
\<close>

record http_response =
  redirected :: bool
  url :: string
  http_status :: nat
  content_type :: "string option"
  body_text :: "exn + string"
  body_json :: "exn + jsval"

datatype fetch_outcome = FetchFails exn | FetchReturns http_response

text \<open>
  What the user sees of \<open>fetchWrapper\<close>. A navigation, a reload or a replaced document
  unloads the page in the end; the model records the effect and follows the script as
  long as it runs.
\<close>

datatype ui_effect =
    Navigate string
  | ReplaceDocument string
  | Alert string
  | Confirm string
  | Reload

text \<open>\<open>String.prototype.includes\<close>.\<close>

fun str_includes :: "string \<Rightarrow> string \<Rightarrow> bool" where
  "str_includes [] t = (t = [])"
| "str_includes (c # s) t = (take (length t) (c # s) = t \<or> str_includes s t)"

definition network_failure :: "bool \<Rightarrow> ui_effect list \<times> http_response option" where
  "network_failure shouldRefresh =
     (Confirm ''Cannot connect to backend. Click OK to refresh.'' #
        (if shouldRefresh then [Reload] else []), None)"

text \<open>
  \<open>fetchWrapper\<close>: the response, or \<open>undefined\<close> (\<open>None\<close>) after a redirect, an HTML
  404 page, a status of 500 and above, or a failure of the network. \<open>shouldRefresh\<close> is
  the user's answer to the dialog, when one is shown.
\<close>

definition fetchWrapper :: "bool \<Rightarrow> fetch_outcome \<Rightarrow> ui_effect list \<times> http_response option" where
  "fetchWrapper shouldRefresh outcome =
     (case outcome of
        FetchFails e \<Rightarrow> network_failure shouldRefresh
      | FetchReturns response \<Rightarrow>
          if redirected response then ([Navigate (url response)], None)
          else if http_status response = 404 then
            (let contentType = (case content_type response of Some c \<Rightarrow> c | None \<Rightarrow> [])
             in if str_includes contentType ''text/html'' then
                  (case body_text response of
                     Inl e \<Rightarrow> network_failure shouldRefresh
                   | Inr html \<Rightarrow> ([ReplaceDocument html], None))
                else ([Alert ''Backend returned Endpoint Not Found.''], Some response))
          else if http_status response \<ge> 500 then
            (Confirm ''Backend is not responding. Click OK to refresh.'' #
               (if shouldRefresh then [Reload] else []), None)
          else ([], Some response))"

text \<open>
  The delay before poll number \<open>attempt\<close>, \<open>Math.min(300 * Math.pow(1.5, attempt), 3000)\<close>,
  in milliseconds. The doubles of the code agree with the rationals here: up to attempt 5
  the powers of 1.5 and their products with 300 are exact in binary, and from attempt 6 on
  the product is above 3000 by more than any rounding error, so the minimum is 3000.
\<close>

definition POLL_TIMEOUT_MS :: int where
  "POLL_TIMEOUT_MS = 5 * 60 * 1000"

definition delay :: "nat \<Rightarrow> rat" where
  "delay attempt = min (300 * (3 / 2) ^ attempt) 3000"

text \<open>
  The world of one call of \<open>callAIAgent\<close>: the outcome of the n-th \<open>fetch\<close> (number 0
  is the submit, number \<open>k + 1\<close> the poll of attempt \<open>k\<close>), the user's answer to the
  dialog of that call, and the readings of \<open>Date.now()\<close>: \<open>start_time\<close> for
  \<open>startTime\<close>, \<open>now_at k\<close> at the test of the loop with \<open>attempt = k\<close>.
\<close>

record client_env =
  fetch_result :: "nat \<Rightarrow> fetch_outcome"
  confirm_answer :: "nat \<Rightarrow> bool"
  start_time :: int
  now_at :: "nat \<Rightarrow> int"

text \<open>
  The trace of a call: the requests it sends (the body before \<open>JSON.stringify\<close>), its
  sleeps and what \<open>fetchWrapper\<close> shows.
\<close>

datatype event = Request string jsval | Sleep rat | Ui ui_effect

text \<open>
  The failure object \<open>{success: false, response: {status: 'error', result: {}, message},
  error}\<close> that the client and the route build in many places.
\<close>

definition failure_object :: "jsval \<Rightarrow> jsval \<Rightarrow> (string \<times> jsval) list" where
  "failure_object msg err =
     [(''success'', JBool False),
      (''response'', JObj [(''status'', JStr ''error''), (''result'', JObj []),
                           (''message'', msg)]),
      (''error'', err)]"

definition failure :: "string \<Rightarrow> jsval" where
  "failure msg = JObj (failure_object (JStr msg) (JStr msg))"

text \<open>The handler \<open>catch (error)\<close>: \<open>error instanceof Error ? error.message : 'Network error'\<close>.\<close>

definition catch_message :: "exn \<Rightarrow> string" where
  "catch_message e = (case e of JsError m \<Rightarrow> m | JsThrown v \<Rightarrow> ''Network error'')"

text \<open>
  The spread \<open>{...pollData, agent_id, user_id, session_id}\<close>: the own entries of an
  object, the indexed elements of an array or a string, nothing of another value; then
  the three entries, each replacing one of the same name where it stands.
\<close>

definition spread :: "jsval \<Rightarrow> (string \<times> jsval) list" where
  "spread v =
     (case v of
        JObj kvs \<Rightarrow> kvs
      | JArr xs \<Rightarrow> zip (map show_nat [0..<length xs]) xs
      | JStr s \<Rightarrow> zip (map show_nat [0..<length s]) (map (\<lambda>c. JStr [c]) s)
      | _ \<Rightarrow> [])"

definition with_ids :: "jsval \<Rightarrow> jsval \<Rightarrow> jsval \<Rightarrow> jsval \<Rightarrow> jsval" where
  "with_ids pollData agent_id user_id session_id =
     JObj (AList.update ''session_id'' session_id
            (AList.update ''user_id'' user_id
              (AList.update ''agent_id'' agent_id (spread pollData))))"

text \<open>Optional chaining \<open>options?.name\<close>.\<close>

definition opt_chain :: "jsval \<Rightarrow> string \<Rightarrow> jsval" where
  "opt_chain v k = (if nullish v then JUndefined else js_prop v k)"

definition submit_request :: "jsval \<Rightarrow> jsval \<Rightarrow> jsval \<Rightarrow> event" where
  "submit_request msg agent_id options =
     Request ''/api/agent''
       (JObj [(''message'', msg), (''agent_id'', agent_id),
              (''user_id'', opt_chain options ''user_id''),
              (''session_id'', opt_chain options ''session_id''),
              (''assets'', opt_chain options ''assets'')])"

text \<open>One turn of the loop up to the reply: the sleep, the poll request, the dialogs.\<close>

definition poll_events :: "client_env \<Rightarrow> jsval \<Rightarrow> nat \<Rightarrow> event list" where
  "poll_events env task_id attempt =
     [Sleep (delay attempt), Request ''/api/agent'' (JObj [(''task_id'', task_id)])] @
     map Ui (fst (fetchWrapper (confirm_answer env (Suc attempt))
                               (fetch_result env (Suc attempt))))"

text \<open>
  The loop \<open>while (Date.now() - startTime < POLL_TIMEOUT_MS)\<close>. It may run for ever (a
  clock that stands still), so its result is optional: \<open>None\<close> is a loop that does not
  return. A result is the value returned or the exception thrown inside \<open>try\<close>, with the
  trace so far.
\<close>

partial_function (option) poll_loop ::
  "client_env \<Rightarrow> jsval \<Rightarrow> jsval \<Rightarrow> jsval \<Rightarrow> jsval \<Rightarrow> nat \<Rightarrow> event list
   \<Rightarrow> ((exn + jsval) \<times> event list) option" where
  "poll_loop env task_id agent_id user_id session_id attempt tr =
     (if now_at env attempt - start_time env < POLL_TIMEOUT_MS then
        (let tr' = tr @ poll_events env task_id attempt in
         case snd (fetchWrapper (confirm_answer env (Suc attempt))
                                (fetch_result env (Suc attempt))) of
           None \<Rightarrow> poll_loop env task_id agent_id user_id session_id (Suc attempt) tr'
         | Some pollRes \<Rightarrow>
             (case body_json pollRes of
                Inl e \<Rightarrow> Some (Inl e, tr')
              | Inr pollData \<Rightarrow>
                  (case js_get pollData ''status'' of
                     Inl e \<Rightarrow> Some (Inl e, tr')
                   | Inr st \<Rightarrow>
                       if st = JStr ''processing''
                       then poll_loop env task_id agent_id user_id session_id (Suc attempt) tr'
                       else Some (Inr (with_ids pollData agent_id user_id session_id), tr'))))
      else Some (Inr (failure ''Agent task timed out after 5 minutes''), tr))"

declare poll_loop.simps [code]

text \<open>The body of \<open>try\<close> in \<open>callAIAgent\<close>.\<close>

definition callAIAgent_try ::
  "client_env \<Rightarrow> jsval \<Rightarrow> jsval \<Rightarrow> jsval \<Rightarrow> ((exn + jsval) \<times> event list) option" where
  "callAIAgent_try env msg agent_id options =
     (let tr = submit_request msg agent_id options #
               map Ui (fst (fetchWrapper (confirm_answer env 0) (fetch_result env 0)))
      in case snd (fetchWrapper (confirm_answer env 0) (fetch_result env 0)) of
           None \<Rightarrow> Some (Inr (failure ''No response from server''), tr)
         | Some submitRes \<Rightarrow>
             (case body_json submitRes of
                Inl e \<Rightarrow> Some (Inl e, tr)
              | Inr submitData \<Rightarrow>
                  (case js_get submitData ''task_id'' of
                     Inl e \<Rightarrow> Some (Inl e, tr)
                   | Inr task_id \<Rightarrow>
                       if \<not> js_truthy task_id then
                         Some (Inr (if js_prop submitData ''success'' = JBool False
                                    then submitData
                                    else failure ''No task_id in response''), tr)
                       else poll_loop env task_id agent_id
                              (js_prop submitData ''user_id'')
                              (js_prop submitData ''session_id'') 0 tr)))"

text \<open>
  \<open>callAIAgent\<close>: the value of the \<open>try\<close> body, or what the \<open>catch\<close> handler makes of the
  exception; \<open>None\<close> when the loop does not return.
\<close>

definition callAIAgent ::
  "client_env \<Rightarrow> jsval \<Rightarrow> jsval \<Rightarrow> jsval \<Rightarrow> (jsval \<times> event list) option" where
  "callAIAgent env msg agent_id options =
     (case callAIAgent_try env msg agent_id options of
        None \<Rightarrow> None
      | Some (Inl e, tr) \<Rightarrow> Some (failure (catch_message e), tr)
      | Some (Inr v, tr) \<Rightarrow> Some (v, tr))"

section \<open>Built-ins taken as parameters\<close>

text \<open>
  The functions of the language and of the repository's \<open>jsonParser\<close> module (which is
  not among the sources) that the code calls and the model does not define:
  \<open>Number.prototype.toString\<close>, the conversion of a string to a number,
  \<open>JSON.parse\<close>, \<open>JSON.stringify\<close> (a string, or \<open>undefined\<close>) and \<open>parseLLMJson\<close>.
  Every property below holds whatever these functions are.
\<close>

record platform =
  Number_toString :: "jsnum \<Rightarrow> string"
  StringToNumber :: "string \<Rightarrow> jsnum"
  JSON_parse :: "string \<Rightarrow> exn + jsval"
  JSON_stringify :: "jsval \<Rightarrow> jsval"
  parseLLMJson :: "jsval \<Rightarrow> exn + jsval"

text \<open>ToNumber, and the comparison \<open>v > c\<close> with a numeric literal \<open>c\<close>.\<close>

definition to_number :: "platform \<Rightarrow> jsval \<Rightarrow> jsnum" where
  "to_number pf v =
     (case v of
        JUndefined \<Rightarrow> NaN
      | JNull \<Rightarrow> Fin 0
      | JBool b \<Rightarrow> Fin (if b then 1 else 0)
      | JNum n \<Rightarrow> n
      | JStr s \<Rightarrow> StringToNumber pf s
      | _ \<Rightarrow> StringToNumber pf (js_String (Number_toString pf) v))"

definition num_gt :: "jsnum \<Rightarrow> rat \<Rightarrow> bool" where
  "num_gt n c =
     (case n of
        NaN \<Rightarrow> False
      | PosInf \<Rightarrow> True
      | NegInf \<Rightarrow> False
      | NegZero \<Rightarrow> 0 > c
      | Fin q \<Rightarrow> q > c)"

definition js_gt :: "platform \<Rightarrow> jsval \<Rightarrow> rat \<Rightarrow> bool" where
  "js_gt pf v c = num_gt (to_number pf v) c"

section \<open>The error classifier of the fetch interceptor\<close>

datatype error_type = react_error | api_error | parse_error | network_error | unknown

text \<open>
  \<open>ErrorDetails\<close>. The message and the raw response are copied from the payload with a
  type assertion only, so they hold whatever the payload held.
\<close>

record error_details =
  err_type :: error_type
  err_message :: jsval
  err_raw_response :: jsval
  endpoint :: string
  err_timestamp :: string
  userAgent :: string
  err_url :: string

record issue =
  hasIssue :: bool
  issue_error :: "error_details option"

text \<open>
  What the classifier reads of the browser: \<open>new Date().toISOString()\<close>,
  \<open>navigator.userAgent\<close> and \<open>window.location.href\<close>.
\<close>

record browser =
  date_iso :: string
  navigator_userAgent :: string
  location_href :: string

definition LYZR_API_URL :: string where
  "LYZR_API_URL = ''https://agent-prod.studio.lyzr.ai/v3/inference/chat''"

definition details :: "browser \<Rightarrow> error_type \<Rightarrow> jsval \<Rightarrow> jsval \<Rightarrow> error_details" where
  "details br ty msg raw =
     \<lparr>err_type = ty, err_message = msg, err_raw_response = raw, endpoint = LYZR_API_URL,
      err_timestamp = date_iso br, userAgent = navigator_userAgent br,
      err_url = location_href br\<rparr>"

text \<open>
  \<open>detectResponseIssue\<close>. Its argument is the parsed body of the intercepted response;
  on \<open>null\<close> the first read, \<open>data.success\<close>, throws.
\<close>

definition detectResponseIssue :: "platform \<Rightarrow> browser \<Rightarrow> jsval \<Rightarrow> exn + issue" where
  "detectResponseIssue pf br data =
     (if nullish data then Inl (JsError (null_read_message data ''success''))
      else if js_prop data ''success'' = JBool False \<and> js_truthy (js_prop data ''error'') then
        Inr \<lparr>hasIssue = True,
             issue_error = Some (details br api_error (js_prop data ''error'')
               (js_or (js_prop data ''details'') (js_prop data ''raw_response'')))\<rparr>
      else if js_prop data ''_parse_succeeded'' = JBool False \<and>
              js_prop data ''_has_valid_data'' = JBool True then
        Inr \<lparr>hasIssue = True,
             issue_error = Some (details br parse_error
               (JStr ''JSON parsing failed but valid data exists in raw_response'')
               (js_prop data ''raw_response''))\<rparr>
      else if js_truthy (js_prop data ''response'') \<and>
              typeof (js_prop data ''response'') = TObject then
        (let response = js_prop data ''response'' in
         if js_prop response ''success'' = JBool False \<and> js_truthy (js_prop response ''error'')
         then
           (let rawResponse = js_prop data ''raw_response'' in
            if js_truthy rawResponse \<and> js_gt pf (js_prop rawResponse ''length'') 20 then
              Inr \<lparr>hasIssue = True,
                   issue_error = Some (details br parse_error (js_prop response ''error'')
                     rawResponse)\<rparr>
            else Inr \<lparr>hasIssue = False, issue_error = None\<rparr>)
         else Inr \<lparr>hasIssue = False, issue_error = None\<rparr>)
      else Inr \<lparr>hasIssue = False, issue_error = None\<rparr>)"

section \<open>The server route \<open>/api/agent\<close>\<close>

definition LYZR_TASK_URL :: string where
  "LYZR_TASK_URL = ''https://agent-prod.studio.lyzr.ai/v3/inference/chat/task''"

text \<open>
  The world of one call of the route: the API key of the configuration, the outcome of
  its one \<open>fetch\<close> to the inference API, the two identifiers \<open>generateUUID\<close> would
  draw (for the user and for the session) and \<open>new Date().toISOString()\<close>.
\<close>

record route_env =
  LYZR_API_KEY :: string
  backend :: fetch_outcome
  uuid_user :: string
  uuid_session :: string
  now_iso :: string

text \<open>\<open>NextResponse.json(body, {status})\<close>: the status code and the object serialised.\<close>

record route_response =
  code :: nat
  json :: jsval

text \<open>\<open>response.ok\<close>.\<close>

definition ok :: "http_response \<Rightarrow> bool" where
  "ok r = (200 \<le> http_status r \<and> http_status r \<le> 299)"

text \<open>The message of the \<open>TypeError\<close> for a destructuring of \<open>null\<close> (V8's wording).\<close>

definition destructure_message :: "jsval \<Rightarrow> string \<Rightarrow> string \<Rightarrow> string" where
  "destructure_message v k source =
     ''Cannot destructure property '' @ [CHR 0x27] @ k @ [CHR 0x27] @ '' of '' @
     [CHR 0x27] @ source @ [CHR 0x27] @ '' as it is '' @
     (if v = JNull then ''null'' else ''undefined'') @ ''.''"

text \<open>
  The message of a failed submit: the default, replaced by \<open>detail\<close>, \<open>error\<close> or
  \<open>message\<close> of the body when it parses as JSON, by \<open>error\<close> or \<open>message\<close> of what
  \<open>parseLLMJson\<close> makes of it otherwise.
\<close>

definition submit_error_message :: "platform \<Rightarrow> http_response \<Rightarrow> string \<Rightarrow> jsval" where
  "submit_error_message pf submitRes submitText =
     (let errorMsg = JStr (''Task submit failed with status '' @ show_nat (http_status submitRes))
      in case JSON_parse pf submitText of
           Inr errorData \<Rightarrow>
             js_or (js_or (js_or (opt_chain errorData ''detail'') (opt_chain errorData ''error''))
                          (opt_chain errorData ''message'')) errorMsg
         | Inl e \<Rightarrow>
             (case parseLLMJson pf (JStr submitText) of
                Inr errorData \<Rightarrow>
                  js_or (js_or (opt_chain errorData ''error'') (opt_chain errorData ''message''))
                        errorMsg
              | Inl e' \<Rightarrow> errorMsg))"

text \<open>
  \<open>submitTask\<close>: the response of the route or the exception it throws, and the requests
  sent to the inference API.
\<close>

definition submitTask ::
  "platform \<Rightarrow> route_env \<Rightarrow> jsval \<Rightarrow> (exn + route_response) \<times> event list" where
  "submitTask pf env body =
     (if nullish body then (Inl (JsError (destructure_message body ''message'' ''body'')), [])
      else
        (let msg = js_prop body ''message'';
             agent_id = js_prop body ''agent_id'';
             user_id = js_prop body ''user_id'';
             session_id = js_prop body ''session_id'';
             assets = js_prop body ''assets''
         in if \<not> js_truthy msg \<or> \<not> js_truthy agent_id then
              (Inr \<lparr>code = 400, json = failure ''message and agent_id are required''\<rparr>, [])
            else
              (let finalUserId = js_or user_id (JStr (''user-'' @ uuid_user env));
                   finalSessionId =
                     js_or session_id
                       (JStr (js_String (Number_toString pf) agent_id @ ''-'' @
                              take 12 (uuid_session env)));
                   payload =
                     [(''message'', msg), (''agent_id'', agent_id),
                      (''user_id'', finalUserId), (''session_id'', finalSessionId)] @
                     (if js_truthy assets \<and> js_gt pf (js_prop assets ''length'') 0
                      then [(''assets'', assets)] else []);
                   tr = [Request LYZR_TASK_URL (JObj payload)]
               in case backend env of
                    FetchFails e \<Rightarrow> (Inl e, tr)
                  | FetchReturns submitRes \<Rightarrow>
                      if \<not> ok submitRes then
                        (case body_text submitRes of
                           Inl e \<Rightarrow> (Inl e, tr)
                         | Inr submitText \<Rightarrow>
                             (let errorMsg = submit_error_message pf submitRes submitText
                              in (Inr \<lparr>code = http_status submitRes,
                                       json = JObj (failure_object errorMsg errorMsg @
                                                    [(''raw_response'', JStr submitText)])\<rparr>,
                                  tr)))
                      else
                        (case body_json submitRes of
                           Inl e \<Rightarrow> (Inl e, tr)
                         | Inr d \<Rightarrow>
                             (if nullish d
                              then (Inl (JsError (destructure_message d ''task_id''
                                                  ''(intermediate value)'')), tr)
                              else (Inr \<lparr>code = 200,
                                         json = JObj [(''task_id'', js_prop d ''task_id''),
                                                      (''agent_id'', agent_id),
                                                      (''user_id'', finalUserId),
                                                      (''session_id'', finalSessionId)]\<rparr>,
                                    tr))))))"

text \<open>
  The completed branch of \<open>pollTask\<close>: the envelope is opened, \<open>parseLLMJson\<close> and
  \<open>normalizeResponse\<close> are applied.
\<close>

definition completed ::
  "platform \<Rightarrow> route_env \<Rightarrow> jsval \<Rightarrow> event list \<Rightarrow> (exn + route_response) \<times> event list" where
  "completed pf env task tr =
     (let rawText = JSON_stringify pf (js_prop task ''response'');
          (moduleOutputs, agentResponseRaw) =
            (case JSON_parse pf (js_String (Number_toString pf) rawText) of
               Inr envelope \<Rightarrow>
                 if js_truthy envelope \<and> typeof envelope = TObject \<and> js_in ''response'' envelope
                 then (js_prop envelope ''module_outputs'', js_prop envelope ''response'')
                 else (JUndefined, rawText)
             | Inl e \<Rightarrow> (JUndefined, rawText))
      in case parseLLMJson pf agentResponseRaw of
           Inl e \<Rightarrow> (Inl e, tr)
         | Inr parsed \<Rightarrow>
             (let toNormalize =
                    (if js_truthy parsed \<and> typeof parsed = TObject \<and>
                        js_prop parsed ''success'' = JBool False \<and>
                        js_prop parsed ''data'' = JNull
                     then agentResponseRaw else parsed);
                  normalized = normalizeResponse (Number_toString pf) toNormalize
              in (Inr \<lparr>code = 200,
                       json = JObj [(''success'', JBool True), (''status'', JStr ''completed''),
                                    (''response'', to_object normalized),
                                    (''module_outputs'', moduleOutputs),
                                    (''timestamp'', JStr (now_iso env)),
                                    (''raw_response'', rawText)]\<rparr>, tr)))"

text \<open>\<open>pollTask\<close>: one request to the inference API for the task.\<close>

definition pollTask ::
  "platform \<Rightarrow> route_env \<Rightarrow> jsval \<Rightarrow> (exn + route_response) \<times> event list" where
  "pollTask pf env task_id =
     (let tr = [Request (LYZR_TASK_URL @ ''/'' @ js_String (Number_toString pf) task_id)
                        JUndefined]
      in case backend env of
           FetchFails e \<Rightarrow> (Inl e, tr)
         | FetchReturns pollRes \<Rightarrow>
             if \<not> ok pollRes then
               (case body_text pollRes of
                  Inl e \<Rightarrow> (Inl e, tr)
                | Inr pollText \<Rightarrow>
                    (let msg = (if http_status pollRes = 404
                                then ''Task expired or not found''
                                else ''Poll failed with status '' @
                                     show_nat (http_status pollRes))
                     in (Inr \<lparr>code = http_status pollRes,
                              json = JObj [(''success'', JBool False),
                                           (''status'', JStr ''failed''),
                                           (''error'', JStr msg),
                                           (''raw_response'', JStr pollText)]\<rparr>, tr)))
             else
               (case body_json pollRes of
                  Inl e \<Rightarrow> (Inl e, tr)
                | Inr task \<Rightarrow>
                    (case js_get task ''status'' of
                       Inl e \<Rightarrow> (Inl e, tr)
                     | Inr st \<Rightarrow>
                         if st = JStr ''processing'' then
                           (Inr \<lparr>code = 200, json = JObj [(''status'', JStr ''processing'')]\<rparr>,
                            tr)
                         else if st = JStr ''failed'' then
                           (let err = js_or (js_prop task ''error'') (JStr ''Agent task failed'')
                            in (Inr \<lparr>code = 500,
                                     json = JObj [(''success'', JBool False),
                                                  (''status'', JStr ''failed''),
                                                  (''response'',
                                                   JObj [(''status'', JStr ''error''),
                                                         (''result'', JObj []),
                                                         (''message'', err)]),
                                                  (''error'', err)]\<rparr>, tr))
                         else completed pf env task tr)))"

text \<open>
  The handler \<open>POST\<close>: \<open>request_json\<close> is the result of \<open>request.json()\<close>. Whatever is
  thrown inside is answered with status 500.
\<close>

definition POST ::
  "platform \<Rightarrow> route_env \<Rightarrow> exn + jsval \<Rightarrow> route_response \<times> event list" where
  "POST pf env request_json =
     (let attempt =
            (case request_json of
               Inl e \<Rightarrow> (Inl e, [])
             | Inr body \<Rightarrow>
                 if LYZR_API_KEY env = [] then
                   (Inr \<lparr>code = 500,
                         json = JObj (failure_object (JStr ''LYZR_API_KEY not configured'')
                                        (JStr ''LYZR_API_KEY not configured on server''))\<rparr>, [])
                 else
                   (case js_get body ''task_id'' of
                      Inl e \<Rightarrow> (Inl e, [])
                    | Inr task_id \<Rightarrow>
                        if js_truthy task_id then pollTask pf env task_id
                        else submitTask pf env body))
      in case attempt of
           (Inl e, tr) \<Rightarrow>
             (\<lparr>code = 500,
               json = failure (case e of JsError m \<Rightarrow> m | JsThrown v \<Rightarrow> ''Server error'')\<rparr>, tr)
         | (Inr r, tr) \<Rightarrow> (r, tr))"

section \<open>Notions used to state the properties of the client and the route\<close>

text \<open>
  The contract of the timer: \<open>startTime\<close> is read before the first test of the loop, and
  the sleep of attempt \<open>k\<close> lasts at least its delay, in whole milliseconds.
\<close>

definition timer_contract :: "client_env \<Rightarrow> bool" where
  "timer_contract env =
     (start_time env \<le> now_at env 0 \<and>
      (\<forall>k. now_at env k + \<lfloor>delay k\<rfloor> \<le> now_at env (Suc k)))"

text \<open>The parsed reply to the submit, and to the poll of attempt \<open>k\<close>, when there is one.\<close>

definition submit_data :: "client_env \<Rightarrow> jsval option" where
  "submit_data env =
     (case snd (fetchWrapper (confirm_answer env 0) (fetch_result env 0)) of
        None \<Rightarrow> None
      | Some submitRes \<Rightarrow> (case body_json submitRes of Inl e \<Rightarrow> None | Inr d \<Rightarrow> Some d))"

definition poll_data :: "client_env \<Rightarrow> nat \<Rightarrow> jsval option" where
  "poll_data env k =
     (case snd (fetchWrapper (confirm_answer env (Suc k)) (fetch_result env (Suc k))) of
        None \<Rightarrow> None
      | Some pollRes \<Rightarrow> (case body_json pollRes of Inl e \<Rightarrow> None | Inr d \<Rightarrow> Some d))"

definition reports_processing :: "client_env \<Rightarrow> nat \<Rightarrow> bool" where
  "reports_processing env k =
     (case poll_data env k of
        None \<Rightarrow> False
      | Some d \<Rightarrow> js_get d ''status'' = Inr (JStr ''processing''))"

text \<open>The loop goes on after attempt \<open>k\<close>: no response, or a reply still processing.\<close>

definition poll_continues :: "client_env \<Rightarrow> nat \<Rightarrow> bool" where
  "poll_continues env k =
     (snd (fetchWrapper (confirm_answer env (Suc k)) (fetch_result env (Suc k))) = None \<or>
      reports_processing env k)"

text \<open>The trace of the submit, and of the first \<open>k\<close> turns of the loop.\<close>

definition submit_events :: "client_env \<Rightarrow> jsval \<Rightarrow> jsval \<Rightarrow> jsval \<Rightarrow> event list" where
  "submit_events env msg agent_id options =
     submit_request msg agent_id options #
     map Ui (fst (fetchWrapper (confirm_answer env 0) (fetch_result env 0)))"

definition polls_until :: "client_env \<Rightarrow> jsval \<Rightarrow> nat \<Rightarrow> event list" where
  "polls_until env task_id k = concat (map (poll_events env task_id) [0..<k])"

text \<open>The bodies of the requests of a trace, and its sleeps.\<close>

fun requests :: "event list \<Rightarrow> jsval list" where
  "requests [] = []"
| "requests (Request u b # tr) = b # requests tr"
| "requests (ev # tr) = requests tr"

fun sleeps :: "event list \<Rightarrow> rat list" where
  "sleeps [] = []"
| "sleeps (Sleep d # tr) = d # sleeps tr"
| "sleeps (ev # tr) = sleeps tr"

text \<open>The body of the route's answer to a failed poll.\<close>

definition poll_failure :: "string \<Rightarrow> string \<Rightarrow> jsval" where
  "poll_failure msg pollText =
     JObj [(''success'', JBool False), (''status'', JStr ''failed''),
           (''error'', JStr msg), (''raw_response'', JStr pollText)]"

text \<open>
  The declared shape of what \<open>callAIAgent\<close> returns: \<open>AIAgentResponse\<close> has a boolean
  \<open>success\<close> and a \<open>response\<close> that is a \<open>NormalizedAgentResponse\<close>, that is an
  object with a \<open>status\<close> of \<open>success\<close> or \<open>error\<close>, an object for a \<open>result\<close>
  and, when it is there, a string for a \<open>message\<close>. The other fields are optional.
\<close>

definition is_NormalizedAgentResponse :: "jsval \<Rightarrow> bool" where
  "is_NormalizedAgentResponse v =
     (is_object v \<and>
      (js_prop v ''status'' = JStr ''success'' \<or> js_prop v ''status'' = JStr ''error'') \<and>
      is_object (js_prop v ''result'') \<and>
      (typeof (js_prop v ''message'') = TString \<or>
       typeof (js_prop v ''message'') = TUndefined))"

definition is_AIAgentResponse :: "jsval \<Rightarrow> bool" where
  "is_AIAgentResponse v =
     (is_object v \<and> typeof (js_prop v ''success'') = TBoolean \<and>
      is_NormalizedAgentResponse (js_prop v ''response''))"

subsection \<open>Sample worlds\<close>

definition quoted :: "string \<Rightarrow> string" where
  "quoted s = [CHR 0x22] @ s @ [CHR 0x22]"

text \<open>The JSON texts of the two failure objects, and a JSON reply of the route.\<close>

definition failure_text :: "string \<Rightarrow> string" where
  "failure_text msg =
     ''{'' @ quoted ''success'' @ '':false,'' @ quoted ''response'' @ '':{'' @
     quoted ''status'' @ '':'' @ quoted ''error'' @ '','' @ quoted ''result'' @ '':{},'' @
     quoted ''message'' @ '':'' @ quoted msg @ ''},'' @ quoted ''error'' @ '':'' @
     quoted msg @ ''}''"

definition poll_failure_text :: "string \<Rightarrow> string \<Rightarrow> string" where
  "poll_failure_text msg pollText =
     ''{'' @ quoted ''success'' @ '':false,'' @ quoted ''status'' @ '':'' @
     quoted ''failed'' @ '','' @ quoted ''error'' @ '':'' @ quoted msg @ '','' @
     quoted ''raw_response'' @ '':'' @ quoted pollText @ ''}''"

definition json_reply :: "nat \<Rightarrow> string \<Rightarrow> jsval \<Rightarrow> http_response" where
  "json_reply st txt v =
     \<lparr>redirected = False, url = ''/api/agent'', http_status = st,
      content_type = Some ''application/json'', body_text = Inr txt, body_json = Inr v\<rparr>"

definition accepted_reply :: http_response where
  "accepted_reply =
     json_reply 200
       (''{'' @ quoted ''task_id'' @ '':'' @ quoted ''T1'' @ '','' @
        quoted ''agent_id'' @ '':'' @ quoted ''A1'' @ ''}'')
       (JObj [(''task_id'', JStr ''T1''), (''agent_id'', JStr ''A1'')])"

definition processing_reply :: http_response where
  "processing_reply =
     json_reply 200 (''{'' @ quoted ''status'' @ '':'' @ quoted ''processing'' @ ''}'')
       (JObj [(''status'', JStr ''processing'')])"


text \<open>A server that answers the submit with an HTML error page of status 200.\<close>

definition html_reply :: http_response where
  "html_reply =
     \<lparr>redirected = False, url = ''/api/agent'', http_status = 200,
      content_type = Some ''text/html'', body_text = Inr ''<html></html>'',
      body_json = Inl (JsError ''Unexpected token < in JSON at position 0'')\<rparr>"

definition env_html :: client_env where
  "env_html =
     \<lparr>fetch_result = (\<lambda>n. FetchReturns html_reply),
      confirm_answer = (\<lambda>n. False),
      start_time = 0,
      now_at = (\<lambda>k. 200000 * int k)\<rparr>"

text \<open>A server that answers the submit with the JSON text \<open>null\<close>.\<close>

definition env_null :: client_env where
  "env_null =
     \<lparr>fetch_result = (\<lambda>n. FetchReturns (json_reply 200 ''null'' JNull)),
      confirm_answer = (\<lambda>n. False),
      start_time = 0,
      now_at = (\<lambda>k. 200000 * int k)\<rparr>"

text \<open>A server that answers the submit with an empty object.\<close>

definition env_empty_object :: client_env where
  "env_empty_object =
     \<lparr>fetch_result = (\<lambda>n. FetchReturns (json_reply 200 ''{}'' (JObj []))),
      confirm_answer = (\<lambda>n. False),
      start_time = 0,
      now_at = (\<lambda>k. 200000 * int k)\<rparr>"

text \<open>
  A stand-in for the built-ins, for examples that reach none of the parsers: its
  \<open>JSON.parse\<close> rejects every text, its \<open>JSON.stringify\<close> answers \<open>undefined\<close>, its
  \<open>parseLLMJson\<close> hands its argument back.
\<close>

definition platform_stub :: platform where
  "platform_stub =
     \<lparr>Number_toString = numstr_integral,
      StringToNumber = (\<lambda>s. NaN),
      JSON_parse = (\<lambda>s. Inl (JsError ''Unexpected end of JSON input'')),
      JSON_stringify = (\<lambda>v. JUndefined),
      parseLLMJson = (\<lambda>v. Inr v)\<rparr>"

text \<open>A route whose inference API cannot be reached.\<close>

definition route_offline :: route_env where
  "route_offline =
     \<lparr>LYZR_API_KEY = ''key'', backend = FetchFails (JsError ''fetch failed''),
      uuid_user = ''00000000-0000-4000-8000-000000000000'',
      uuid_session = ''11111111-1111-4111-8111-111111111111'',
      now_iso = ''2024-01-01T00:00:00.000Z''\<rparr>"

text \<open>A route whose inference API answers 404 with the text \<open>gone\<close>.\<close>

definition route_gone :: route_env where
  "route_gone =
     \<lparr>LYZR_API_KEY = ''key'',
      backend = FetchReturns
        \<lparr>redirected = False, url = LYZR_TASK_URL @ ''/T1'', http_status = 404,
         content_type = Some ''text/plain'', body_text = Inr ''gone'',
         body_json = Inl (JsError ''Unexpected token g in JSON at position 0'')\<rparr>,
      uuid_user = ''00000000-0000-4000-8000-000000000000'',
      uuid_session = ''11111111-1111-4111-8111-111111111111'',
      now_iso = ''2024-01-01T00:00:00.000Z''\<rparr>"

text \<open>
  A server that rejects the submit with the validation failure (status 400), and one
  that accepts the task, reports it as processing once and then answers 404 with the
  failure of an expired task.
\<close>

definition env_validation :: client_env where
  "env_validation =
     \<lparr>fetch_result =
        (\<lambda>n. FetchReturns
                (json_reply 400 (failure_text ''message and agent_id are required'')
                   (failure ''message and agent_id are required''))),
      confirm_answer = (\<lambda>n. False),
      start_time = 0,
      now_at = (\<lambda>k. 200000 * int k)\<rparr>"

definition env_expired :: client_env where
  "env_expired =
     \<lparr>fetch_result =
        (\<lambda>n. FetchReturns
                (if n = 0 then accepted_reply
                 else if n = 1 then processing_reply
                 else json_reply 404 (poll_failure_text ''Task expired or not found'' ''gone'')
                        (poll_failure ''Task expired or not found'' ''gone''))),
      confirm_answer = (\<lambda>n. False),
      start_time = 0,
      now_at = (\<lambda>k. 1000 * int k)\<rparr>"

subsection \<open>Notions used to state the classifier's properties\<close>

text \<open>The three conditions the classifier tests, in its order.\<close>

definition api_failure :: "jsval \<Rightarrow> bool" where
  "api_failure data =
     (js_prop data ''success'' = JBool False \<and> js_truthy (js_prop data ''error''))"

definition parse_flagged :: "jsval \<Rightarrow> bool" where
  "parse_flagged data =
     (js_prop data ''_parse_succeeded'' = JBool False \<and>
      js_prop data ''_has_valid_data'' = JBool True)"

definition has_valid_raw :: "platform \<Rightarrow> jsval \<Rightarrow> bool" where
  "has_valid_raw pf rawResponse =
     (js_truthy rawResponse \<and> js_gt pf (js_prop rawResponse ''length'') 20)"

definition nested_failure :: "platform \<Rightarrow> jsval \<Rightarrow> bool" where
  "nested_failure pf data =
     (is_object (js_prop data ''response'') \<and>
      js_prop (js_prop data ''response'') ''success'' = JBool False \<and>
      js_truthy (js_prop (js_prop data ''response'') ''error'') \<and>
      has_valid_raw pf (js_prop data ''raw_response''))"

text \<open>The kind of the record the classifier produces, if it produces one.\<close>

definition kind_of :: "exn + issue \<Rightarrow> error_type option" where
  "kind_of r = (case r of Inl e \<Rightarrow> None | Inr i \<Rightarrow> map_option err_type (issue_error i))"

definition browser_sample :: browser where
  "browser_sample =
     \<lparr>date_iso = ''2024-01-01T00:00:00.000Z'', navigator_userAgent = ''Mozilla/5.0'',
      location_href = ''http://localhost:3000/''\<rparr>"

text \<open>
  A route whose inference API reports the task as failed, and a server that accepts the
  task and then gives that route's answer, of status 500, to every poll.
\<close>

definition route_failed :: route_env where
  "route_failed =
     \<lparr>LYZR_API_KEY = ''key'',
      backend = FetchReturns
        (json_reply 200
           (''{'' @ quoted ''status'' @ '':'' @ quoted ''failed'' @ '','' @
            quoted ''error'' @ '':'' @ quoted ''model overloaded'' @ ''}'')
           (JObj [(''status'', JStr ''failed''), (''error'', JStr ''model overloaded'')])),
      uuid_user = ''00000000-0000-4000-8000-000000000000'',
      uuid_session = ''11111111-1111-4111-8111-111111111111'',
      now_iso = ''2024-01-01T00:00:00.000Z''\<rparr>"

definition task_failed :: jsval where
  "task_failed =
     JObj [(''success'', JBool False), (''status'', JStr ''failed''),
           (''response'', JObj [(''status'', JStr ''error''), (''result'', JObj []),
                                (''message'', JStr ''model overloaded'')]),
           (''error'', JStr ''model overloaded'')]"

definition task_failed_text :: string where
  "task_failed_text =
     ''{'' @ quoted ''success'' @ '':false,'' @ quoted ''status'' @ '':'' @
     quoted ''failed'' @ '','' @ quoted ''response'' @ '':{'' @
     quoted ''status'' @ '':'' @ quoted ''error'' @ '','' @ quoted ''result'' @ '':{},'' @
     quoted ''message'' @ '':'' @ quoted ''model overloaded'' @ ''},'' @
     quoted ''error'' @ '':'' @ quoted ''model overloaded'' @ ''}''"

definition env_failed :: client_env where
  "env_failed =
     \<lparr>fetch_result =
        (\<lambda>n. FetchReturns
                (if n = 0 then accepted_reply else json_reply 500 task_failed_text task_failed)),
      confirm_answer = (\<lambda>n. False),
      start_time = 0,
      now_at = (\<lambda>k. 200000 * int k)\<rparr>"

section \<open>Properties of the response normalizer\<close>

lemma normalizeResponse_envelope:
  "is_envelope c \<Longrightarrow>
   normalizeResponse numstr c = normalizeResponse numstr (js_prop c ''response'')"
  by (subst normalizeResponse.simps) (auto simp: is_envelope_def)

lemma normalizeResponse_direct:
  "\<not> is_envelope c \<Longrightarrow>
   status (normalizeResponse numstr c) =
     (if js_truthy c \<and> \<not> explicit_error c then Success else Error)"
  by (subst normalizeResponse.simps) (auto simp: is_envelope_def explicit_error_def Let_def)

text \<open>
  C1 (as amended). \<open>normalizeResponse\<close> is a total function: its one recursive call, on
  the \<open>response\<close> entry of an envelope, is on a smaller value (the termination proof
  above), and no branch reads a property of \<open>null\<close> or \<open>undefined\<close>. Its status is
  \<open>error\<close> exactly when the candidate, once its \<open>response\<close> envelopes are opened, is
  falsy (\<open>undefined\<close>, \<open>null\<close>, \<open>false\<close>, \<open>0\<close>, \<open>NaN\<close>, the empty string) or is an
  object whose \<open>status\<close> entry is the string \<open>error\<close>; for every other candidate the
  status is \<open>success\<close>.
\<close>

theorem normalizeResponse_status:
  "status (normalizeResponse numstr c) =
     (if js_truthy (payload_of c) \<and> \<not> explicit_error (payload_of c) then Success else Error)"
proof (induction c rule: payload_of.induct)
  case (1 c)
  show ?case
  proof (cases "is_envelope c")
    case True
    with 1 show ?thesis
      by (simp add: normalizeResponse_envelope payload_of.simps [of c])
  next
    case False
    then show ?thesis
      by (simp add: normalizeResponse_direct payload_of.simps [of c])
  qed
qed

theorem normalizeResponse_status_witness:
  "status (normalizeResponse numstr_integral
             (JObj [(''status'', JStr ''error''), (''result'', JNull)])) = Error
   \<and> status (normalizeResponse numstr_integral (JObj [(''response'', JStr ''hi'')])) = Success"
  using normalizeResponse_status
          [of numstr_integral "JObj [(''status'', JStr ''error''), (''result'', JNull)]"]
        normalizeResponse_status [of numstr_integral "JObj [(''response'', JStr ''hi'')]"]
  by (simp add: payload_of.simps is_envelope_def explicit_error_def)

text \<open>
  The claim as the specification words it fails on an envelope around an empty
  response: \<open>{response: null}\<close> is an object, it is not empty and it has no \<open>status\<close>
  entry, and its normalized status is \<open>error\<close>.
\<close>

theorem normalizeResponse_status_counterexample:
  "status (normalizeResponse numstr_integral (JObj [(''response'', JNull)])) = Error
   \<and> \<not> claimed_error (JObj [(''response'', JNull)])"
  by (simp add: normalizeResponse.simps claimed_error_def explicit_error_def)

text \<open>
  C6 (as amended). For every truthy number or boolean (every number but \<open>0\<close>, \<open>-0\<close>
  and \<open>NaN\<close>, and \<open>true\<close>) the normalizer answers \<open>success\<close> with the result
  \<open>{value: input}\<close> and the message \<open>String(input)\<close>.
\<close>

theorem normalizeResponse_scalar:
  "is_scalar v \<Longrightarrow> js_truthy v \<Longrightarrow>
   normalizeResponse numstr v =
     \<lparr>status = Success, result = JObj [(''value'', v)],
      message = JStr (js_String numstr v), metadata = JUndefined\<rparr>"
  by (subst normalizeResponse.simps) (auto simp: is_scalar_def)

theorem normalizeResponse_scalar_witness:
  "is_scalar (JNum (Fin 7)) \<and> js_truthy (JNum (Fin 7)) \<and>
   normalizeResponse numstr_integral (JNum (Fin 7)) =
     \<lparr>status = Success, result = JObj [(''value'', JNum (Fin 7))],
      message = JStr ''7'', metadata = JUndefined\<rparr>"
  using normalizeResponse_scalar [of "JNum (Fin 7)" numstr_integral]
  by (simp add: is_scalar_def numstr_integral_def digit_char_def)

text \<open>
  The number \<open>0\<close> is a scalar that is neither a string nor an object, and the first
  test of the normalizer, \<open>!parsed\<close>, takes it for an empty response.
\<close>

theorem normalizeResponse_scalar_counterexample:
  "is_scalar (JNum (Fin 0)) \<and>
   normalizeResponse numstr_integral (JNum (Fin 0)) =
     \<lparr>status = Error, result = JObj [],
      message = JStr ''Empty response from agent'', metadata = JUndefined\<rparr>"
  by (simp add: normalizeResponse.simps is_scalar_def)

lemma normalize_to_object:
  "js_truthy (result n) \<Longrightarrow> normalizeResponse numstr (to_object n) = n"
  by (subst normalizeResponse.simps)
     (cases n, cases "status n", auto simp: to_object_def status_text_def js_or_def)

lemma normalize_drop_undefined:
  "js_truthy (result n) \<Longrightarrow> normalizeResponse numstr (drop_undefined (to_object n)) = n"
  by (subst normalizeResponse.simps)
     (cases n, cases "status n",
      auto simp: to_object_def status_text_def js_or_def drop_undefined_def)

lemma result_truthy: "js_truthy (result (normalizeResponse numstr c))"
proof (induction numstr c rule: normalizeResponse.induct)
  case (1 numstr parsed)
  show ?case
    using 1 by (subst normalizeResponse.simps) (auto simp: Let_def js_or_def)
qed

lemma is_object_truthy: "is_object v \<Longrightarrow> js_truthy v"
  by (cases v) (auto simp: is_object_def)

lemma normalize_passthrough:
  assumes "js_in ''status'' c" and "js_prop c ''status'' = JStr (status_text s)"
    and "js_in ''result'' c" and "js_truthy (js_prop c ''result'')"
  shows "normalizeResponse numstr c =
           \<lparr>status = s, result = js_prop c ''result'', message = js_prop c ''message'',
            metadata = js_prop c ''metadata''\<rparr>"
proof -
  obtain kvs where c: "c = JObj kvs"
    using assms(1) by (cases c) (auto simp: array_index_def is_digit_def)
  show ?thesis
    using assms unfolding c
    by (subst normalizeResponse.simps) (cases s, auto simp: status_text_def js_or_def)
qed

text \<open>
  C7. Normalizing an object that is already normalized (a \<open>status\<close> entry that is
  \<open>success\<close> or \<open>error\<close>, a \<open>result\<close> entry that is an object, any \<open>message\<close> and
  \<open>metadata\<close>, present or not) gives back that status, result, message and metadata;
  hence a normalized response, held with its absent entries as \<open>undefined\<close> or with
  these left out, normalizes to itself, and the normalizer is idempotent on every
  candidate.
\<close>

theorem normalizeResponse_idempotent:
  "(js_in ''status'' c \<and> js_prop c ''status'' = JStr (status_text s) \<and>
    js_in ''result'' c \<and> is_object (js_prop c ''result'') \<longrightarrow>
      normalizeResponse numstr c =
        \<lparr>status = s, result = js_prop c ''result'', message = js_prop c ''message'',
         metadata = js_prop c ''metadata''\<rparr>) \<and>
   (is_object (result n) \<longrightarrow>
      normalizeResponse numstr (to_object n) = n \<and>
      normalizeResponse numstr (drop_undefined (to_object n)) = n) \<and>
   normalizeResponse numstr (to_object (normalizeResponse numstr x)) =
     normalizeResponse numstr x \<and>
   normalizeResponse numstr (drop_undefined (to_object (normalizeResponse numstr x))) =
     normalizeResponse numstr x"
  using normalize_passthrough [of c s numstr]
  by (simp add: normalize_to_object normalize_drop_undefined result_truthy is_object_truthy)

theorem normalizeResponse_idempotent_witness:
  "is_object (JObj [(''answer'', JStr ''42'')]) \<and>
   normalizeResponse numstr_integral
     (JObj [(''result'', JObj [(''answer'', JStr ''42'')]), (''message'', JStr ''42''),
            (''status'', JStr ''success'')]) =
     \<lparr>status = Success, result = JObj [(''answer'', JStr ''42'')],
      message = JStr ''42'', metadata = JUndefined\<rparr> \<and>
   normalizeResponse numstr_integral
     (JObj [(''status'', JStr ''success''), (''result'', JObj [(''answer'', JStr ''42'')]),
            (''message'', JStr ''42'')]) =
     \<lparr>status = Success, result = JObj [(''answer'', JStr ''42'')],
      message = JStr ''42'', metadata = JUndefined\<rparr>"
  using normalizeResponse_idempotent
          [of "JObj [(''result'', JObj [(''answer'', JStr ''42'')]), (''message'', JStr ''42''),
                     (''status'', JStr ''success'')]" Success numstr_integral
              "\<lparr>status = Success, result = JObj [(''answer'', JStr ''42'')],
                message = JStr ''42'', metadata = JUndefined\<rparr>" JNull]
  by (simp add: is_object_def to_object_def drop_undefined_def status_text_def)

section \<open>Properties of the backoff and of the poll loop\<close>

lemma delay_step: "delay (Suc n) = min (3 / 2 * delay n) 3000"
  by (simp add: delay_def min_def)

lemma delay_mono_Suc: "delay n \<le> delay (Suc n)"
  by (simp add: delay_def min_def)

lemma delay_le_cap: "delay n \<le> 3000"
  by (simp add: delay_def)

lemma delay_ge_300: "300 \<le> delay n"
proof -
  have "(1::rat) \<le> (3 / 2) ^ n" by (rule one_le_power) simp
  then show ?thesis by (simp add: delay_def)
qed

lemma delay_capped: "delay (n + 6) = 3000"
proof -
  define x where "x = (3 / 2 :: rat) ^ n"
  have "1 \<le> x" unfolding x_def by (rule one_le_power) simp
  have "(3 / 2 :: rat) ^ 6 = 729 / 64" by (simp add: power_numeral_reduce)
  then have "(3 / 2 :: rat) ^ (n + 6) = x * (729 / 64)"
    by (simp only: power_add x_def)
  moreover have "(3000::rat) \<le> 300 * (x * (729 / 64))"
    using \<open>1 \<le> x\<close> by linarith
  ultimately have "(3000::rat) \<le> 300 * (3 / 2) ^ (n + 6)" by (simp only:)
  then show ?thesis by (simp only: delay_def min_def split: if_splits) simp
qed

text \<open>
  C4. The delays \<open>d(n) = min(300 * 1.5^n, 3000)\<close> start at 300 ms, below a second; each
  is the previous one times 1.5, cut at 3000 ms, so the sequence never decreases; no
  delay exceeds 3000 ms, and from attempt 6 on every delay is 3000 ms.
\<close>

theorem delay_backoff:
  "delay 0 = 300 \<and> delay 0 < 1000 \<and>
   delay (Suc n) = min (3 / 2 * delay n) 3000 \<and>
   delay n \<le> delay (Suc n) \<and>
   delay n \<le> 3000 \<and>
   delay (n + 6) = 3000"
  using delay_step [of n] delay_mono_Suc [of n] delay_le_cap [of n] delay_capped [of n]
  by (simp add: delay_def)

theorem delay_backoff_witness:
  "delay 0 = 300 \<and> delay 1 = 450 \<and> delay 2 = 675 \<and> delay 5 < 3000 \<and> delay 6 = 3000"
  using delay_backoff [of 0] delay_backoff [of 1] delay_backoff [of 4]
  by (simp add: delay_def power_numeral_reduce)

lemma floor_delay_ge: "300 \<le> \<lfloor>delay k\<rfloor>"
  using delay_ge_300 [of k] by (simp add: le_floor_iff)

lemma floor_delay_le: "\<lfloor>delay k\<rfloor> \<le> 3000"
proof -
  have "\<lfloor>delay k\<rfloor> \<le> \<lfloor>3000 :: rat\<rfloor>" by (rule floor_mono) (rule delay_le_cap)
  then show ?thesis by simp
qed

lemma clock_growth:
  assumes "timer_contract env"
  shows "now_at env 0 + 300 * int k \<le> now_at env k"
proof (induction k)
  case 0
  show ?case by simp
next
  case (Suc k)
  have "now_at env k + \<lfloor>delay k\<rfloor> \<le> now_at env (Suc k)"
    using assms by (simp add: timer_contract_def)
  moreover have "now_at env k + 300 \<le> now_at env k + \<lfloor>delay k\<rfloor>"
    by (rule add_left_mono) (rule floor_delay_ge)
  ultimately have "now_at env k + 300 \<le> now_at env (Suc k)" by (rule order_trans [rotated])
  with Suc show ?case by (simp add: algebra_simps)
qed

lemma clock_past_ceiling:
  assumes "timer_contract env" and "1000 \<le> k"
  shows "\<not> now_at env k - start_time env < POLL_TIMEOUT_MS"
  using clock_growth [OF assms(1), of k] assms
  by (simp add: timer_contract_def POLL_TIMEOUT_MS_def)

lemma poll_loop_timeout:
  "\<not> now_at env k - start_time env < POLL_TIMEOUT_MS \<Longrightarrow>
   poll_loop env t a u s k tr = Some (Inr (failure ''Agent task timed out after 5 minutes''), tr)"
  by (subst poll_loop.simps) simp

lemma poll_loop_continue:
  "now_at env k - start_time env < POLL_TIMEOUT_MS \<Longrightarrow> poll_continues env k \<Longrightarrow>
   poll_loop env t a u s k tr = poll_loop env t a u s (Suc k) (tr @ poll_events env t k)"
  by (subst poll_loop.simps)
     (auto simp: poll_continues_def reports_processing_def poll_data_def Let_def
           split: option.splits sum.splits)

lemma poll_loop_stop:
  "now_at env k - start_time env < POLL_TIMEOUT_MS \<Longrightarrow> \<not> poll_continues env k \<Longrightarrow>
   \<exists>r. poll_loop env t a u s k tr = Some (r, tr @ poll_events env t k)"
  by (subst poll_loop.simps)
     (auto simp: poll_continues_def reports_processing_def poll_data_def Let_def
           split: option.splits sum.splits)

lemma poll_loop_answer:
  "now_at env k - start_time env < POLL_TIMEOUT_MS \<Longrightarrow> poll_data env k = Some d \<Longrightarrow>
   \<not> nullish d \<Longrightarrow> js_prop d ''status'' \<noteq> JStr ''processing'' \<Longrightarrow>
   poll_loop env t a u s k tr = Some (Inr (with_ids d a u s), tr @ poll_events env t k)"
  by (subst poll_loop.simps)
     (auto simp: poll_data_def js_get_def Let_def split: option.splits sum.splits)

lemma poll_loop_run:
  "a \<le> k \<Longrightarrow>
   (\<forall>j. a \<le> j \<and> j < k \<longrightarrow>
        now_at env j - start_time env < POLL_TIMEOUT_MS \<and> poll_continues env j) \<Longrightarrow>
   poll_loop env t ag u s a tr =
     poll_loop env t ag u s k (tr @ concat (map (poll_events env t) [a..<k]))"
proof (induction k)
  case 0
  then show ?case by simp
next
  case (Suc k)
  show ?case
  proof (cases "a = Suc k")
    case True
    then show ?thesis by simp
  next
    case False
    with Suc.prems have ak: "a \<le> k" by simp
    from Suc.prems have
      "now_at env k - start_time env < POLL_TIMEOUT_MS" "poll_continues env k"
      using ak by auto
    then have "poll_loop env t ag u s k (tr @ concat (map (poll_events env t) [a..<k])) =
      poll_loop env t ag u s (Suc k)
        ((tr @ concat (map (poll_events env t) [a..<k])) @ poll_events env t k)"
      by (rule poll_loop_continue)
    moreover have "poll_loop env t ag u s a tr =
      poll_loop env t ag u s k (tr @ concat (map (poll_events env t) [a..<k]))"
      using Suc.IH [OF ak] Suc.prems(2) by simp
    ultimately show ?thesis using ak by simp
  qed
qed

lemma poll_loop_returns:
  assumes "timer_contract env"
  shows "\<exists>r. poll_loop env t ag u s a tr = Some r"
proof -
  have "\<exists>r. poll_loop env t ag u s a tr = Some r" if "n = 1000 - a" for n
    using that
  proof (induction n arbitrary: a tr)
    case 0
    then have "1000 \<le> a" by simp
    from clock_past_ceiling [OF assms this] show ?case by (simp add: poll_loop_timeout)
  next
    case (Suc n)
    show ?case
    proof (cases "now_at env a - start_time env < POLL_TIMEOUT_MS")
      case False
      then show ?thesis by (simp add: poll_loop_timeout)
    next
      case True
      show ?thesis
      proof (cases "poll_continues env a")
        case True
        have "n = 1000 - Suc a" using Suc.prems by simp
        from Suc.IH [OF this] show ?thesis
          using poll_loop_continue [OF \<open>now_at env a - start_time env < POLL_TIMEOUT_MS\<close> True]
          by simp
      next
        case False
        from poll_loop_stop [OF True False] show ?thesis by blast
      qed
    qed
  qed
  then show ?thesis by simp
qed

section \<open>Properties of \<open>callAIAgent\<close>\<close>

lemma callAIAgent_try_accepted:
  "submit_data env = Some d \<Longrightarrow> \<not> nullish d \<Longrightarrow> js_truthy (js_prop d ''task_id'') \<Longrightarrow>
   callAIAgent_try env msg agent_id options =
     poll_loop env (js_prop d ''task_id'') agent_id (js_prop d ''user_id'')
       (js_prop d ''session_id'') 0 (submit_events env msg agent_id options)"
  by (auto simp: callAIAgent_try_def submit_data_def submit_events_def js_get_def Let_def
           split: option.splits sum.splits)

lemma callAIAgent_try_no_task:
  "submit_data env = Some d \<Longrightarrow> \<not> nullish d \<Longrightarrow> \<not> js_truthy (js_prop d ''task_id'') \<Longrightarrow>
   callAIAgent_try env msg agent_id options =
     Some (Inr (if js_prop d ''success'' = JBool False then d
                else failure ''No task_id in response''),
           submit_events env msg agent_id options)"
  by (auto simp: callAIAgent_try_def submit_data_def submit_events_def js_get_def Let_def
           split: option.splits sum.splits)

lemma callAIAgent_try_returns:
  assumes "timer_contract env"
  shows "\<exists>r. callAIAgent_try env msg agent_id options = Some r"
  using poll_loop_returns [OF assms]
  by (auto simp: callAIAgent_try_def Let_def split: option.splits sum.splits)

lemma callAIAgent_no_response:
  "snd (fetchWrapper (confirm_answer env 0) (fetch_result env 0)) = None \<Longrightarrow>
   callAIAgent env msg agent_id options =
     Some (failure ''No response from server'', submit_events env msg agent_id options)"
  by (simp add: callAIAgent_def callAIAgent_try_def submit_events_def)

lemma callAIAgent_submit_rejects:
  "snd (fetchWrapper (confirm_answer env 0) (fetch_result env 0)) = Some res \<Longrightarrow>
   body_json res = Inl e \<Longrightarrow>
   callAIAgent env msg agent_id options =
     Some (failure (catch_message e), submit_events env msg agent_id options)"
  by (simp add: callAIAgent_def callAIAgent_try_def submit_events_def)

text \<open>
  What holds of every call. With a timer that keeps its contract, \<open>callAIAgent\<close>
  returns; nothing is thrown past it: whenever something is thrown inside its \<open>try\<close>
  block (a reply whose body is not JSON, a reply that is \<open>null\<close>), the call returns the
  object with \<open>success = false\<close> and \<open>response = {status: 'error', result: {},
  message}\<close>, where the message is the message of the exception, or \<open>Network error\<close>
  when the thrown value is not an \<open>Error\<close>. So does a submit whose body fails to parse;
  a submit that gets no response (a failure of the transport, which \<open>fetchWrapper\<close>
  catches) is answered with the failure \<open>No response from server\<close>. The shape of the
  value returned on the other paths is examined in the last section.
\<close>

lemma callAIAgent_returns_or_catches:
  assumes "timer_contract env"
  shows "(\<exists>v tr. callAIAgent env msg agent_id options = Some (v, tr)) \<and>
         (\<forall>e tr. callAIAgent_try env msg agent_id options = Some (Inl e, tr) \<longrightarrow>
            callAIAgent env msg agent_id options =
              Some (JObj [(''success'', JBool False),
                          (''response'', JObj [(''status'', JStr ''error''), (''result'', JObj []),
                                               (''message'', JStr (catch_message e))]),
                          (''error'', JStr (catch_message e))], tr)) \<and>
         (\<forall>res e. snd (fetchWrapper (confirm_answer env 0) (fetch_result env 0)) = Some res \<and>
                  body_json res = Inl e \<longrightarrow>
            callAIAgent env msg agent_id options =
              Some (failure (catch_message e), submit_events env msg agent_id options)) \<and>
         (snd (fetchWrapper (confirm_answer env 0) (fetch_result env 0)) = None \<longrightarrow>
            callAIAgent env msg agent_id options =
              Some (failure ''No response from server'',
                    submit_events env msg agent_id options))"
proof -
  from callAIAgent_try_returns [OF assms]
  obtain r where "callAIAgent_try env msg agent_id options = Some r" by blast
  then have "\<exists>v tr. callAIAgent env msg agent_id options = Some (v, tr)"
    by (cases r) (auto simp: callAIAgent_def split: sum.splits)
  moreover have "callAIAgent env msg agent_id options =
      Some (JObj [(''success'', JBool False),
                  (''response'', JObj [(''status'', JStr ''error''), (''result'', JObj []),
                                       (''message'', JStr (catch_message e))]),
                  (''error'', JStr (catch_message e))], tr)"
    if "callAIAgent_try env msg agent_id options = Some (Inl e, tr)" for e tr
    using that by (simp add: callAIAgent_def failure_def failure_object_def)
  ultimately show ?thesis
    using callAIAgent_submit_rejects [of env _ _ msg agent_id options]
      callAIAgent_no_response [of env msg agent_id options]
    by blast
qed

lemma timer_contract_sample:
  assumes "start_time env = 0" and "now_at env = (\<lambda>k. 200000 * int k)"
  shows "timer_contract env"
proof -
  have "200000 * int k + \<lfloor>delay k\<rfloor> \<le> 200000 * int (Suc k)" for k
  proof -
    have "200000 * int k + \<lfloor>delay k\<rfloor> \<le> 200000 * int k + 3000"
      by (rule add_left_mono) (rule floor_delay_le)
    also have "\<dots> \<le> 200000 * int (Suc k)" by simp
    finally show ?thesis .
  qed
  with assms show ?thesis by (simp only: timer_contract_def) simp
qed

lemma callAIAgent_returns_or_catches_example:
  "timer_contract env_html \<and>
   callAIAgent env_html (JStr ''hi'') (JStr ''A1'') JUndefined =
     Some (JObj [(''success'', JBool False),
                 (''response'', JObj [(''status'', JStr ''error''), (''result'', JObj []),
                    (''message'', JStr ''Unexpected token < in JSON at position 0'')]),
                 (''error'', JStr ''Unexpected token < in JSON at position 0'')],
           [submit_request (JStr ''hi'') (JStr ''A1'') JUndefined])"
proof -
  have c: "timer_contract env_html"
    by (rule timer_contract_sample) (simp_all add: env_html_def)
  have "callAIAgent_try env_html (JStr ''hi'') (JStr ''A1'') JUndefined =
      Some (Inl (JsError ''Unexpected token < in JSON at position 0''),
            [submit_request (JStr ''hi'') (JStr ''A1'') JUndefined])"
    by (simp add: callAIAgent_try_def env_html_def html_reply_def fetchWrapper_def)
  with callAIAgent_returns_or_catches [OF c, of "JStr ''hi''" "JStr ''A1''" JUndefined] c
  show ?thesis by (simp add: catch_message_def)
qed


lemma requests_append: "requests (xs @ ys) = requests xs @ requests ys"
  by (induction xs rule: requests.induct) simp_all

lemma sleeps_Ui: "sleeps (map Ui us) = []"
  by (induction us) simp_all

lemma requests_Ui: "requests (map Ui us) = []"
  by (induction us) simp_all


lemma requests_poll_events:
  "requests (poll_events env t k) = [JObj [(''task_id'', t)]]"
  by (simp add: poll_events_def requests_Ui)


lemma requests_polls_until: "length (requests (polls_until env t k)) = k"
  by (induction k) (simp_all add: polls_until_def requests_append requests_poll_events)



lemma callAIAgent_no_task:
  assumes "submit_data env = Some d" and "\<not> nullish d"
    and "\<not> js_truthy (js_prop d ''task_id'')"
  shows "callAIAgent env msg agent_id options =
           Some (if js_prop d ''success'' = JBool False then d
                 else failure ''No task_id in response'',
                 submit_events env msg agent_id options)"
  by (simp add: callAIAgent_def callAIAgent_try_no_task [OF assms])

lemma submit_events_only:
  "requests (submit_events env msg agent_id options) =
     [JObj [(''message'', msg), (''agent_id'', agent_id),
            (''user_id'', opt_chain options ''user_id''),
            (''session_id'', opt_chain options ''session_id''),
            (''assets'', opt_chain options ''assets'')]] \<and>
   sleeps (submit_events env msg agent_id options) = []"
  by (simp add: submit_events_def submit_request_def requests_Ui sleeps_Ui)

text \<open>
  C10 (as amended). When the submit reply parses to a JSON value other than \<open>null\<close>
  that has no \<open>task_id\<close> (or a falsy one), \<open>callAIAgent\<close> does not enter the poll loop:
  its trace is the submit request alone, with no sleep and no poll. A reply with
  \<open>success = false\<close> is returned as it is; for any other, the call returns the failure
  with the message \<open>No task_id in response\<close>.
\<close>

theorem callAIAgent_missing_task_id:
  assumes "submit_data env = Some d" and "\<not> nullish d"
    and "\<not> js_truthy (js_prop d ''task_id'')"
  shows "callAIAgent env msg agent_id options =
           Some (if js_prop d ''success'' = JBool False then d
                 else failure ''No task_id in response'',
                 submit_events env msg agent_id options) \<and>
         length (requests (submit_events env msg agent_id options)) = 1 \<and>
         sleeps (submit_events env msg agent_id options) = []"
  using callAIAgent_no_task [OF assms] submit_events_only by simp

theorem callAIAgent_missing_task_id_witness:
  "submit_data env_empty_object = Some (JObj []) \<and>
   \<not> js_in ''task_id'' (JObj []) \<and>
   callAIAgent env_empty_object (JStr ''hi'') (JStr ''A1'') JUndefined =
     Some (failure ''No task_id in response'',
           [submit_request (JStr ''hi'') (JStr ''A1'') JUndefined])"
proof -
  have s: "submit_data env_empty_object = Some (JObj [])"
    by (simp add: submit_data_def env_empty_object_def json_reply_def fetchWrapper_def)
  from callAIAgent_missing_task_id [OF s, of "JStr ''hi''" "JStr ''A1''" JUndefined] s
  show ?thesis
    by (simp add: nullish_def submit_events_def env_empty_object_def json_reply_def
          fetchWrapper_def)
qed

text \<open>
  The reply \<open>null\<close> parses as JSON and has no \<open>task_id\<close> field and no \<open>success\<close>
  field, yet the call does not answer \<open>No task_id in response\<close>: reading
  \<open>submitData.task_id\<close> throws, and the \<open>catch\<close> handler returns the message of the
  \<open>TypeError\<close>.
\<close>

theorem callAIAgent_missing_task_id_counterexample:
  "submit_data env_null = Some JNull \<and>
   \<not> js_in ''task_id'' JNull \<and>
   js_prop JNull ''success'' \<noteq> JBool False \<and>
   callAIAgent env_null (JStr ''hi'') (JStr ''A1'') JUndefined =
     Some (failure (null_read_message JNull ''task_id''),
           [submit_request (JStr ''hi'') (JStr ''A1'') JUndefined]) \<and>
   failure (null_read_message JNull ''task_id'') \<noteq> failure ''No task_id in response''"
  by (simp add: submit_data_def env_null_def json_reply_def fetchWrapper_def callAIAgent_def
        callAIAgent_try_def js_get_def nullish_def catch_message_def failure_def
        failure_object_def null_read_message_def)

section \<open>Properties of the error classifier\<close>

lemma has_valid_raw_string: "has_valid_raw pf (JStr s) = (20 < length s)"
  by (auto simp: has_valid_raw_def js_gt_def to_number_def num_gt_def)

lemma kind_of_detect:
  "\<not> nullish data \<Longrightarrow>
   kind_of (detectResponseIssue pf br data) =
     (if api_failure data then Some api_error
      else if parse_flagged data \<or> nested_failure pf data then Some parse_error
      else None)"
  by (cases "js_prop data ''response''")
     (auto simp: detectResponseIssue_def kind_of_def api_failure_def parse_flagged_def
        nested_failure_def has_valid_raw_def details_def is_object_def Let_def)

lemma hasIssue_detect:
  "detectResponseIssue pf br data = Inr i \<Longrightarrow> hasIssue i = (issue_error i \<noteq> None)"
  by (auto simp: detectResponseIssue_def Let_def split: if_splits)

lemma detect_returns:
  assumes "\<not> nullish data"
  shows "\<exists>i. detectResponseIssue pf br data = Inr i"
proof (cases "detectResponseIssue pf br data")
  case (Inl e)
  with assms show ?thesis
    by (auto simp: detectResponseIssue_def Let_def split: if_splits)
next
  case (Inr i)
  then show ?thesis by blast
qed

text \<open>
  C9 (as amended). On a payload that is not \<open>null\<close>, the classifier produces a record of
  kind \<open>api_error\<close> exactly when the payload has \<open>success = false\<close> with a truthy
  \<open>error\<close>; otherwise it produces one of kind \<open>parse_error\<close> exactly when the payload
  carries \<open>_parse_succeeded = false\<close> with \<open>_has_valid_data = true\<close>, or its nested
  \<open>response\<close> object has \<open>success = false\<close> with a truthy \<open>error\<close> while
  \<open>raw_response\<close> has a length above 20 (for a string: more than 20 characters);
  every other payload produces no record. \<open>hasIssue\<close> is set exactly when there is a
  record.
\<close>

theorem detectResponseIssue_kinds:
  assumes "\<not> nullish data"
  shows "kind_of (detectResponseIssue pf br data) =
           (if api_failure data then Some api_error
            else if parse_flagged data \<or> nested_failure pf data then Some parse_error
            else None) \<and>
         (\<exists>i. detectResponseIssue pf br data = Inr i \<and> hasIssue i = (issue_error i \<noteq> None)) \<and>
         has_valid_raw pf (JStr s) = (20 < length s)"
proof -
  obtain i where "detectResponseIssue pf br data = Inr i"
    using detect_returns [OF assms] by blast
  then show ?thesis
    using kind_of_detect [OF assms] hasIssue_detect has_valid_raw_string by blast
qed

theorem detectResponseIssue_kinds_witness:
  "kind_of (detectResponseIssue platform_stub browser_sample
      (JObj [(''response'', JObj [(''success'', JBool False), (''error'', JStr ''bad json'')]),
             (''raw_response'', JStr ''{answer: 42, more: true}'')])) = Some parse_error \<and>
   kind_of (detectResponseIssue platform_stub browser_sample
      (JObj [(''response'', JObj [(''success'', JBool False), (''error'', JStr ''bad json'')]),
             (''raw_response'', JStr ''{}'')])) = None"
  using detectResponseIssue_kinds [of
          "JObj [(''response'', JObj [(''success'', JBool False), (''error'', JStr ''bad json'')]),
                 (''raw_response'', JStr ''{answer: 42, more: true}'')]"
          platform_stub browser_sample "''{answer: 42, more: true}''"]
        detectResponseIssue_kinds [of
          "JObj [(''response'', JObj [(''success'', JBool False), (''error'', JStr ''bad json'')]),
                 (''raw_response'', JStr ''{}'')]"
          platform_stub browser_sample "''{}''"]
  by (simp add: nullish_def api_failure_def parse_flagged_def nested_failure_def is_object_def)

text \<open>
  A payload that is an API failure and carries the parse flags as well: the
  specification's condition for \<open>parse_error\<close> holds, and the classifier answers
  \<open>api_error\<close>, its first test.
\<close>

theorem detectResponseIssue_kinds_counterexample:
  "parse_flagged (JObj [(''success'', JBool False), (''error'', JStr ''boom''),
                        (''_parse_succeeded'', JBool False), (''_has_valid_data'', JBool True)]) \<and>
   kind_of (detectResponseIssue platform_stub browser_sample
      (JObj [(''success'', JBool False), (''error'', JStr ''boom''),
             (''_parse_succeeded'', JBool False), (''_has_valid_data'', JBool True)])) =
     Some api_error"
  by (simp add: parse_flagged_def kind_of_def detectResponseIssue_def nullish_def details_def)

section \<open>Properties of the route and of the client against it\<close>

lemma submitTask_invalid:
  "\<not> nullish body \<Longrightarrow>
   \<not> js_truthy (js_prop body ''message'') \<or> \<not> js_truthy (js_prop body ''agent_id'') \<Longrightarrow>
   submitTask pf renv body =
     (Inr \<lparr>code = 400, json = failure ''message and agent_id are required''\<rparr>, [])"
  by (auto simp: submitTask_def Let_def)

text \<open>
  C5 (as amended). The validation runs in the server route: for a body that is not
  \<open>null\<close> and whose \<open>message\<close> or \<open>agent_id\<close> is missing or empty (falsy),
  \<open>submitTask\<close> answers status 400 with the failure \<open>message and agent_id are
  required\<close> and sends nothing to the inference API. The client does not validate:
  \<open>callAIAgent\<close> sends its one request to \<open>/api/agent\<close> whatever the message, and
  returns the route's validation failure as it is, without polling.
\<close>

theorem submit_validation:
  assumes "\<not> nullish body"
    and "\<not> js_truthy (js_prop body ''message'') \<or> \<not> js_truthy (js_prop body ''agent_id'')"
    and "submit_data env = Some (failure ''message and agent_id are required'')"
  shows "submitTask pf renv body =
           (Inr \<lparr>code = 400, json = failure ''message and agent_id are required''\<rparr>, []) \<and>
         callAIAgent env msg agent_id options =
           Some (failure ''message and agent_id are required'',
                 submit_events env msg agent_id options) \<and>
         length (requests (submit_events env msg agent_id options)) = 1 \<and>
         sleeps (submit_events env msg agent_id options) = []"
proof -
  have "callAIAgent env msg agent_id options =
      Some (failure ''message and agent_id are required'',
            submit_events env msg agent_id options)"
    using callAIAgent_no_task [OF assms(3), of msg agent_id options]
    by (simp add: nullish_def failure_def failure_object_def)
  then show ?thesis
    using submitTask_invalid [OF assms(1,2)] submit_events_only by simp
qed

theorem submit_validation_witness:
  "submitTask platform_stub route_offline
     (JObj [(''message'', JStr []), (''agent_id'', JStr ''A1'')]) =
     (Inr \<lparr>code = 400, json = failure ''message and agent_id are required''\<rparr>, []) \<and>
   callAIAgent env_validation (JStr []) (JStr ''A1'') JUndefined =
     Some (failure ''message and agent_id are required'',
           [submit_request (JStr []) (JStr ''A1'') JUndefined])"
proof -
  have s: "submit_data env_validation = Some (failure ''message and agent_id are required'')"
    by (simp add: submit_data_def env_validation_def json_reply_def fetchWrapper_def)
  have e: "submit_events env_validation (JStr []) (JStr ''A1'') JUndefined =
      [submit_request (JStr []) (JStr ''A1'') JUndefined]"
    by (simp add: submit_events_def env_validation_def json_reply_def fetchWrapper_def)
  from submit_validation [OF _ _ s,
      of "JObj [(''message'', JStr []), (''agent_id'', JStr ''A1'')]"
         platform_stub route_offline "JStr []" "JStr ''A1''" JUndefined]
  show ?thesis by (simp add: nullish_def e)
qed

text \<open>
  A submit call with an empty message does issue a network request: the trace of
  \<open>callAIAgent('', 'A1')\<close> holds the POST to \<open>/api/agent\<close>.
\<close>

theorem submit_validation_counterexample:
  "callAIAgent env_validation (JStr []) (JStr ''A1'') JUndefined =
     Some (failure ''message and agent_id are required'',
           [Request ''/api/agent''
              (JObj [(''message'', JStr []), (''agent_id'', JStr ''A1''),
                     (''user_id'', JUndefined), (''session_id'', JUndefined),
                     (''assets'', JUndefined)])])"
  by (simp add: callAIAgent_def callAIAgent_try_def env_validation_def json_reply_def
        fetchWrapper_def js_get_def nullish_def failure_def failure_object_def
        submit_request_def opt_chain_def)

lemma pollTask_not_ok:
  "backend renv = FetchReturns r \<Longrightarrow> \<not> ok r \<Longrightarrow> body_text r = Inr txt \<Longrightarrow>
   pollTask pf renv task_id =
     (Inr \<lparr>code = http_status r,
           json = poll_failure
                    (if http_status r = 404 then ''Task expired or not found''
                     else ''Poll failed with status '' @ show_nat (http_status r)) txt\<rparr>,
      [Request (LYZR_TASK_URL @ ''/'' @ js_String (Number_toString pf) task_id) JUndefined])"
  by (simp add: pollTask_def poll_failure_def Let_def)

lemma fetchWrapper_404_json:
  "\<not> redirected r \<Longrightarrow> http_status r = 404 \<Longrightarrow> content_type r = Some ''application/json'' \<Longrightarrow>
   fetchWrapper b (FetchReturns r) = ([Alert ''Backend returned Endpoint Not Found.''], Some r)"
  by (simp add: fetchWrapper_def)

lemma fetchWrapper_5xx:
  "\<not> redirected r \<Longrightarrow> 500 \<le> http_status r \<Longrightarrow> snd (fetchWrapper b (FetchReturns r)) = None"
  by (simp add: fetchWrapper_def)

lemma with_ids_keeps:
  "k \<notin> {''agent_id'', ''user_id'', ''session_id''} \<Longrightarrow>
   js_prop (with_ids (JObj kvs) a u s) k = js_prop (JObj kvs) k"
  by (simp add: with_ids_def spread_def update_conv')

text \<open>
  C8. For a reply of the inference API that is not 2xx, \<open>pollTask\<close> answers with the
  same status and a failed result whose message is \<open>Task expired or not found\<close> for
  404 and \<open>Poll failed with status N\<close> for any other status \<open>N\<close>. When the route's
  answer to poll number \<open>k\<close> is that 404, \<open>fetchWrapper\<close> hands it to the loop, which
  returns it to the caller with the three identifiers added, after exactly \<open>k + 1\<close> poll
  requests and none after; a status of 500 and above never reaches the loop
  (\<open>fetchWrapper\<close> answers \<open>undefined\<close>, and the loop polls again).
\<close>

theorem poll_404_terminal:
  assumes "backend renv = FetchReturns r" and "\<not> ok r" and "body_text r = Inr txt"
    and "submit_data env = Some d" and "\<not> nullish d" and "js_truthy (js_prop d ''task_id'')"
    and "\<forall>j<k. poll_continues env j"
    and "\<forall>j\<le>k. now_at env j - start_time env < POLL_TIMEOUT_MS"
    and "fetch_result env (Suc k) = FetchReturns reply"
    and "\<not> redirected reply" and "http_status reply = 404"
    and "content_type reply = Some ''application/json''"
    and "body_json reply = Inr (poll_failure ''Task expired or not found'' txt)"
  shows "pollTask pf renv task_id =
           (Inr \<lparr>code = http_status r,
                 json = poll_failure
                          (if http_status r = 404 then ''Task expired or not found''
                           else ''Poll failed with status '' @ show_nat (http_status r)) txt\<rparr>,
            [Request (LYZR_TASK_URL @ ''/'' @ js_String (Number_toString pf) task_id)
               JUndefined]) \<and>
         callAIAgent env msg agent_id options =
           Some (with_ids (poll_failure ''Task expired or not found'' txt) agent_id
                   (js_prop d ''user_id'') (js_prop d ''session_id''),
                 submit_events env msg agent_id options @
                 polls_until env (js_prop d ''task_id'') (Suc k)) \<and>
         js_prop (with_ids (poll_failure ''Task expired or not found'' txt) agent_id
                   (js_prop d ''user_id'') (js_prop d ''session_id'')) ''error'' =
           JStr ''Task expired or not found'' \<and>
         length (requests (polls_until env (js_prop d ''task_id'') (Suc k))) = Suc k \<and>
         (\<forall>b r5. \<not> redirected r5 \<and> 500 \<le> http_status r5 \<longrightarrow>
                 snd (fetchWrapper b (FetchReturns r5)) = None)"
proof -
  let ?t = "js_prop d ''task_id''" and ?u = "js_prop d ''user_id''"
    and ?s = "js_prop d ''session_id''"
  let ?f = "poll_failure ''Task expired or not found'' txt"
  have now: "now_at env k - start_time env < POLL_TIMEOUT_MS"
    using assms(8) by simp
  have pd: "poll_data env k = Some ?f"
    using fetchWrapper_404_json [OF assms(10-12)] assms(9,13) by (simp add: poll_data_def)
  have "poll_loop env ?t agent_id ?u ?s 0 (submit_events env msg agent_id options) =
        poll_loop env ?t agent_id ?u ?s k
          (submit_events env msg agent_id options @
           concat (map (poll_events env ?t) [0..<k]))"
    by (rule poll_loop_run) (use assms(7,8) in simp_all)
  also have "\<dots> = Some (Inr (with_ids ?f agent_id ?u ?s),
      (submit_events env msg agent_id options @
       concat (map (poll_events env ?t) [0..<k])) @ poll_events env ?t k)"
    by (rule poll_loop_answer [OF now pd]) (simp_all add: poll_failure_def nullish_def)
  finally have "callAIAgent env msg agent_id options =
      Some (with_ids ?f agent_id ?u ?s,
            submit_events env msg agent_id options @ polls_until env ?t (Suc k))"
    by (simp add: callAIAgent_def callAIAgent_try_accepted [OF assms(4-6)] polls_until_def)
  moreover have "js_prop (with_ids ?f agent_id ?u ?s) ''error'' = JStr ''Task expired or not found''"
    by (simp add: poll_failure_def with_ids_keeps)
  ultimately show ?thesis
    using pollTask_not_ok [OF assms(1-3)] requests_polls_until fetchWrapper_5xx by simp
qed

theorem poll_404_terminal_witness:
  "pollTask platform_stub route_gone (JStr ''T1'') =
     (Inr \<lparr>code = 404, json = poll_failure ''Task expired or not found'' ''gone''\<rparr>,
      [Request (LYZR_TASK_URL @ ''/T1'') JUndefined]) \<and>
   callAIAgent env_expired (JStr ''hi'') (JStr ''A1'') JUndefined =
     Some (JObj [(''success'', JBool False), (''status'', JStr ''failed''),
                 (''error'', JStr ''Task expired or not found''),
                 (''raw_response'', JStr ''gone''), (''agent_id'', JStr ''A1''),
                 (''user_id'', JUndefined), (''session_id'', JUndefined)],
           [submit_request (JStr ''hi'') (JStr ''A1'') JUndefined,
            Sleep 300, Request ''/api/agent'' (JObj [(''task_id'', JStr ''T1'')]),
            Sleep 450, Request ''/api/agent'' (JObj [(''task_id'', JStr ''T1'')]),
            Ui (Alert ''Backend returned Endpoint Not Found.'')])"
proof -
  have s: "submit_data env_expired =
      Some (JObj [(''task_id'', JStr ''T1''), (''agent_id'', JStr ''A1'')])"
    by (simp add: submit_data_def env_expired_def accepted_reply_def json_reply_def
          fetchWrapper_def)
  have c: "\<forall>j<1. poll_continues env_expired j"
    by (simp add: poll_continues_def reports_processing_def poll_data_def env_expired_def
          processing_reply_def json_reply_def fetchWrapper_def js_get_def nullish_def)
  have t: "\<forall>j\<le>1. now_at env_expired j - start_time env_expired < POLL_TIMEOUT_MS"
    by (auto simp: env_expired_def POLL_TIMEOUT_MS_def)
  have f: "fetch_result env_expired (Suc 1) =
      FetchReturns (json_reply 404 (poll_failure_text ''Task expired or not found'' ''gone'')
                      (poll_failure ''Task expired or not found'' ''gone''))"
    by (simp add: env_expired_def)
  have b: "backend route_gone = FetchReturns
        \<lparr>redirected = False, url = LYZR_TASK_URL @ ''/T1'', http_status = 404,
         content_type = Some ''text/plain'', body_text = Inr ''gone'',
         body_json = Inl (JsError ''Unexpected token g in JSON at position 0'')\<rparr>"
    by (simp add: route_gone_def)
  have e: "submit_events env_expired (JStr ''hi'') (JStr ''A1'') JUndefined =
      [submit_request (JStr ''hi'') (JStr ''A1'') JUndefined]"
    by (simp add: submit_events_def env_expired_def accepted_reply_def json_reply_def
          fetchWrapper_def)
  have p: "polls_until env_expired (JStr ''T1'') (Suc (Suc 0)) =
      [Sleep 300, Request ''/api/agent'' (JObj [(''task_id'', JStr ''T1'')]),
       Sleep 450, Request ''/api/agent'' (JObj [(''task_id'', JStr ''T1'')]),
       Ui (Alert ''Backend returned Endpoint Not Found.'')]"
    by (simp add: polls_until_def poll_events_def delay_def env_expired_def
          processing_reply_def json_reply_def fetchWrapper_def)
  from poll_404_terminal [OF b _ _ s _ _ c t f,
      of "''gone''" platform_stub "JStr ''T1''" "JStr ''hi''" "JStr ''A1''" JUndefined]
  show ?thesis
    using e p
    by (simp add: ok_def json_reply_def nullish_def with_ids_def spread_def poll_failure_def)
qed

section \<open>The shape of what \<open>callAIAgent\<close> returns\<close>

lemma failure_is_AIAgentResponse: "is_AIAgentResponse (failure msg)"
  by (simp add: is_AIAgentResponse_def is_NormalizedAgentResponse_def failure_def
        failure_object_def is_object_def)

lemma task_failed_is_AIAgentResponse: "is_AIAgentResponse task_failed"
  by (simp add: is_AIAgentResponse_def is_NormalizedAgentResponse_def task_failed_def
        is_object_def)

lemma callAIAgent_expired:
  "callAIAgent env_expired (JStr ''hi'') (JStr ''A1'') JUndefined =
     Some (JObj [(''success'', JBool False), (''status'', JStr ''failed''),
                 (''error'', JStr ''Task expired or not found''),
                 (''raw_response'', JStr ''gone''), (''agent_id'', JStr ''A1''),
                 (''user_id'', JUndefined), (''session_id'', JUndefined)],
           [submit_request (JStr ''hi'') (JStr ''A1'') JUndefined,
            Sleep 300, Request ''/api/agent'' (JObj [(''task_id'', JStr ''T1'')]),
            Sleep 450, Request ''/api/agent'' (JObj [(''task_id'', JStr ''T1'')]),
            Ui (Alert ''Backend returned Endpoint Not Found.'')])"
proof -
  let ?d = "JObj [(''task_id'', JStr ''T1''), (''agent_id'', JStr ''A1'')]"
  let ?f = "poll_failure ''Task expired or not found'' ''gone''"
  let ?e = "[submit_request (JStr ''hi'') (JStr ''A1'') JUndefined]"
  have s: "submit_data env_expired = Some ?d"
    by (simp add: submit_data_def env_expired_def accepted_reply_def json_reply_def
          fetchWrapper_def)
  have e: "submit_events env_expired (JStr ''hi'') (JStr ''A1'') JUndefined = ?e"
    by (simp add: submit_events_def env_expired_def accepted_reply_def json_reply_def
          fetchWrapper_def)
  have c0: "poll_continues env_expired 0"
    by (simp add: poll_continues_def reports_processing_def poll_data_def env_expired_def
          processing_reply_def json_reply_def fetchWrapper_def js_get_def nullish_def)
  have t0: "now_at env_expired 0 - start_time env_expired < POLL_TIMEOUT_MS"
    and t1: "now_at env_expired (Suc 0) - start_time env_expired < POLL_TIMEOUT_MS"
    by (simp_all add: env_expired_def POLL_TIMEOUT_MS_def)
  have d1: "poll_data env_expired (Suc 0) = Some ?f"
    by (simp add: poll_data_def env_expired_def json_reply_def fetchWrapper_def)
  have p0: "poll_events env_expired (JStr ''T1'') 0 =
      [Sleep 300, Request ''/api/agent'' (JObj [(''task_id'', JStr ''T1'')])]"
    by (simp add: poll_events_def delay_def env_expired_def processing_reply_def
          json_reply_def fetchWrapper_def)
  have p1: "poll_events env_expired (JStr ''T1'') (Suc 0) =
      [Sleep 450, Request ''/api/agent'' (JObj [(''task_id'', JStr ''T1'')]),
       Ui (Alert ''Backend returned Endpoint Not Found.'')]"
    by (simp add: poll_events_def delay_def env_expired_def json_reply_def fetchWrapper_def)
  have "callAIAgent_try env_expired (JStr ''hi'') (JStr ''A1'') JUndefined =
      poll_loop env_expired (JStr ''T1'') (JStr ''A1'') JUndefined JUndefined 0 ?e"
    using callAIAgent_try_accepted [OF s, of "JStr ''hi''" "JStr ''A1''" JUndefined]
    by (simp add: nullish_def e)
  also have "\<dots> = poll_loop env_expired (JStr ''T1'') (JStr ''A1'') JUndefined JUndefined
      (Suc 0) (?e @ poll_events env_expired (JStr ''T1'') 0)"
    by (rule poll_loop_continue [OF t0 c0])
  also have "\<dots> = Some (Inr (with_ids ?f (JStr ''A1'') JUndefined JUndefined),
      (?e @ poll_events env_expired (JStr ''T1'') 0) @
      poll_events env_expired (JStr ''T1'') (Suc 0))"
    by (rule poll_loop_answer [OF t1 d1]) (simp_all add: poll_failure_def nullish_def)
  finally show ?thesis
    by (simp add: callAIAgent_def p0 p1 with_ids_def spread_def poll_failure_def)
qed

lemma callAIAgent_task_failed:
  "callAIAgent env_failed (JStr ''hi'') (JStr ''A1'') JUndefined =
     Some (failure ''Agent task timed out after 5 minutes'',
           [submit_request (JStr ''hi'') (JStr ''A1'') JUndefined,
            Sleep 300, Request ''/api/agent'' (JObj [(''task_id'', JStr ''T1'')]),
            Ui (Confirm ''Backend is not responding. Click OK to refresh.''),
            Sleep 450, Request ''/api/agent'' (JObj [(''task_id'', JStr ''T1'')]),
            Ui (Confirm ''Backend is not responding. Click OK to refresh.'')])"
proof -
  let ?d = "JObj [(''task_id'', JStr ''T1''), (''agent_id'', JStr ''A1'')]"
  let ?e = "[submit_request (JStr ''hi'') (JStr ''A1'') JUndefined]"
  have s: "submit_data env_failed = Some ?d"
    by (simp add: submit_data_def env_failed_def accepted_reply_def json_reply_def
          fetchWrapper_def)
  have e: "submit_events env_failed (JStr ''hi'') (JStr ''A1'') JUndefined = ?e"
    by (simp add: submit_events_def env_failed_def accepted_reply_def json_reply_def
          fetchWrapper_def)
  have c: "poll_continues env_failed k" for k
    by (simp add: poll_continues_def env_failed_def json_reply_def fetchWrapper_def)
  have t0: "now_at env_failed 0 - start_time env_failed < POLL_TIMEOUT_MS"
    and t1: "now_at env_failed (Suc 0) - start_time env_failed < POLL_TIMEOUT_MS"
    and t2: "\<not> now_at env_failed (Suc (Suc 0)) - start_time env_failed < POLL_TIMEOUT_MS"
    by (simp_all add: env_failed_def POLL_TIMEOUT_MS_def)
  have p: "poll_events env_failed (JStr ''T1'') 0 =
      [Sleep 300, Request ''/api/agent'' (JObj [(''task_id'', JStr ''T1'')]),
       Ui (Confirm ''Backend is not responding. Click OK to refresh.'')]"
    "poll_events env_failed (JStr ''T1'') (Suc 0) =
      [Sleep 450, Request ''/api/agent'' (JObj [(''task_id'', JStr ''T1'')]),
       Ui (Confirm ''Backend is not responding. Click OK to refresh.'')]"
    by (simp_all add: poll_events_def delay_def env_failed_def json_reply_def fetchWrapper_def)
  have "callAIAgent_try env_failed (JStr ''hi'') (JStr ''A1'') JUndefined =
      poll_loop env_failed (JStr ''T1'') (JStr ''A1'') JUndefined JUndefined 0 ?e"
    using callAIAgent_try_accepted [OF s, of "JStr ''hi''" "JStr ''A1''" JUndefined]
    by (simp add: nullish_def e)
  also have "\<dots> = poll_loop env_failed (JStr ''T1'') (JStr ''A1'') JUndefined JUndefined
      (Suc 0) (?e @ poll_events env_failed (JStr ''T1'') 0)"
    by (rule poll_loop_continue [OF t0 c])
  also have "\<dots> = poll_loop env_failed (JStr ''T1'') (JStr ''A1'') JUndefined JUndefined
      (Suc (Suc 0)) ((?e @ poll_events env_failed (JStr ''T1'') 0) @
                     poll_events env_failed (JStr ''T1'') (Suc 0))"
    by (rule poll_loop_continue [OF t1 c])
  also have "\<dots> = Some (Inr (failure ''Agent task timed out after 5 minutes''),
      (?e @ poll_events env_failed (JStr ''T1'') 0) @
      poll_events env_failed (JStr ''T1'') (Suc 0))"
    by (rule poll_loop_timeout [OF t2])
  finally show ?thesis
    by (simp add: callAIAgent_def p)
qed

text \<open>
  C2 (the code departs from it). The claim asks that every call return an
  \<open>AIAgentResponse\<close>, the shape the repository documents as guaranteed, with every
  terminal failure in it. Two paths of the code do not. When the inference API answers a
  poll with 404, \<open>pollTask\<close> builds its failure without the \<open>response\<close> entry that its
  sibling branches put in, and \<open>callAIAgent\<close> returns that object with the identifiers
  added: the value has no \<open>response\<close> and is not an \<open>AIAgentResponse\<close>. When the
  inference API reports the task as failed, \<open>pollTask\<close> answers with a well-formed
  failure but under status 500, which \<open>fetchWrapper\<close> drops: the loop polls on, and the
  caller gets the timeout failure in place of the backend's error. The failures the client
  builds itself do have the shape.
\<close>

theorem callAIAgent_response_shape:
  "pollTask platform_stub route_gone (JStr ''T1'') =
     (Inr \<lparr>code = 404, json = poll_failure ''Task expired or not found'' ''gone''\<rparr>,
      [Request (LYZR_TASK_URL @ ''/T1'') JUndefined]) \<and>
   callAIAgent env_expired (JStr ''hi'') (JStr ''A1'') JUndefined =
     Some (JObj [(''success'', JBool False), (''status'', JStr ''failed''),
                 (''error'', JStr ''Task expired or not found''),
                 (''raw_response'', JStr ''gone''), (''agent_id'', JStr ''A1''),
                 (''user_id'', JUndefined), (''session_id'', JUndefined)],
           [submit_request (JStr ''hi'') (JStr ''A1'') JUndefined,
            Sleep 300, Request ''/api/agent'' (JObj [(''task_id'', JStr ''T1'')]),
            Sleep 450, Request ''/api/agent'' (JObj [(''task_id'', JStr ''T1'')]),
            Ui (Alert ''Backend returned Endpoint Not Found.'')]) \<and>
   \<not> is_AIAgentResponse
       (JObj [(''success'', JBool False), (''status'', JStr ''failed''),
              (''error'', JStr ''Task expired or not found''),
              (''raw_response'', JStr ''gone''), (''agent_id'', JStr ''A1''),
              (''user_id'', JUndefined), (''session_id'', JUndefined)]) \<and>
   pollTask platform_stub route_failed (JStr ''T1'') =
     (Inr \<lparr>code = 500, json = task_failed\<rparr>,
      [Request (LYZR_TASK_URL @ ''/T1'') JUndefined]) \<and>
   is_AIAgentResponse task_failed \<and>
   callAIAgent env_failed (JStr ''hi'') (JStr ''A1'') JUndefined =
     Some (failure ''Agent task timed out after 5 minutes'',
           [submit_request (JStr ''hi'') (JStr ''A1'') JUndefined,
            Sleep 300, Request ''/api/agent'' (JObj [(''task_id'', JStr ''T1'')]),
            Ui (Confirm ''Backend is not responding. Click OK to refresh.''),
            Sleep 450, Request ''/api/agent'' (JObj [(''task_id'', JStr ''T1'')]),
            Ui (Confirm ''Backend is not responding. Click OK to refresh.'')]) \<and>
   is_AIAgentResponse (failure ''Agent task timed out after 5 minutes'')"
proof -
  have "pollTask platform_stub route_gone (JStr ''T1'') =
      (Inr \<lparr>code = 404, json = poll_failure ''Task expired or not found'' ''gone''\<rparr>,
       [Request (LYZR_TASK_URL @ ''/T1'') JUndefined])"
    by (simp add: pollTask_def route_gone_def ok_def poll_failure_def platform_stub_def)
  moreover have "pollTask platform_stub route_failed (JStr ''T1'') =
      (Inr \<lparr>code = 500, json = task_failed\<rparr>,
       [Request (LYZR_TASK_URL @ ''/T1'') JUndefined])"
    by (simp add: pollTask_def route_failed_def json_reply_def ok_def js_get_def nullish_def
          js_or_def platform_stub_def task_failed_def Let_def)
  moreover have "\<not> is_AIAgentResponse
       (JObj [(''success'', JBool False), (''status'', JStr ''failed''),
              (''error'', JStr ''Task expired or not found''),
              (''raw_response'', JStr ''gone''), (''agent_id'', JStr ''A1''),
              (''user_id'', JUndefined), (''session_id'', JUndefined)])"
    by (simp add: is_AIAgentResponse_def is_NormalizedAgentResponse_def is_object_def)
  ultimately show ?thesis
    using callAIAgent_expired callAIAgent_task_failed task_failed_is_AIAgentResponse
      failure_is_AIAgentResponse
    by simp
qed

end
